theory Spec2Isabelle
  imports Main "HOL-Library.Sublist"
begin

section \<open>Values, exceptions and observable events\<close>

text \<open>
  The program is a Python script (\<^verbatim>\<open>transcribe.py\<close>) that glues external collaborators
  together: the filesystem, a download engine, a transcoder process, two HTTP services and
  a command-line summarizer.  Each function of the script is embedded as a HOL function
  of the same name.  The answers of the collaborators are fields of a record \<open>env\<close>; the
  filesystem and the list of calls made and lines printed so far are threaded through as
  the state \<open>world\<close>; a raised exception is the result \<open>Inl\<close>.

  A Python \<^verbatim>\<open>str\<close> is a \<^typ>\<open>string\<close>; a \<^typ>\<open>char\<close> stands for a code point below 256.
  JSON data is the type \<open>'f json\<close>, where \<open>'f\<close> is the type of floating point numbers, which
  the script only passes on.  A JSON object is the list of its members in dictionary
  order; as in a Python dictionary, no key occurs twice.
\<close>

datatype 'f json =
    JNull
  | JBool bool
  | JInt int
  | JFloat 'f
  | JStr string
  | JArr "'f json list"
  | JObj "(string \<times> 'f json) list"

text \<open>
  The exception classes that occur.  Every class carries the text that \<^verbatim>\<open>str(e)\<close> yields;
  \<open>CalledProcessError\<close> carries the return code and the captured standard error instead
  (its text leaves the command out).  \<open>KeyboardInterrupt\<close> and \<open>SystemExit\<close> are not
  subclasses of \<^verbatim>\<open>Exception\<close>.
\<close>

datatype exn =
    FileNotFoundError string
  | JSONDecodeError string
  | UnicodeDecodeError string
  | CalledProcessError int string
  | RequestException string
  | RuntimeError string
  | TypeError string
  | ValueError string
  | KeyError string
  | AttributeError string
  | OSError string
  | KeyboardInterrupt
  | SystemExit int

fun digits :: "nat \<Rightarrow> string" where
  "digits n =
     (if n < 10 then [char_of (48 + n)] else digits (n div 10) @ [char_of (48 + n mod 10)])"

definition str_int :: "int \<Rightarrow> string" where
  "str_int i = (if i < 0 then CHR ''-'' # digits (nat (- i)) else digits (nat i))"

fun str_exn :: "exn \<Rightarrow> string" where
  "str_exn (FileNotFoundError m) = m"
| "str_exn (JSONDecodeError m) = m"
| "str_exn (UnicodeDecodeError m) = m"
| "str_exn (CalledProcessError rc err) =
     ''Command returned non-zero exit status '' @ str_int rc @ ''.''"
| "str_exn (RequestException m) = m"
| "str_exn (RuntimeError m) = m"
| "str_exn (TypeError m) = m"
| "str_exn (ValueError m) = m"
| "str_exn (KeyError m) = m"
| "str_exn (AttributeError m) = m"
| "str_exn (OSError m) = m"
| "str_exn KeyboardInterrupt = []"
| "str_exn (SystemExit c) = []"

fun is_Exception :: "exn \<Rightarrow> bool" where
  "is_Exception KeyboardInterrupt = False"
| "is_Exception (SystemExit c) = False"
| "is_Exception e = True"

fun is_RequestException :: "exn \<Rightarrow> bool" where
  "is_RequestException (RequestException m) = True"
| "is_RequestException e = False"

fun is_CalledProcessError :: "exn \<Rightarrow> bool" where
  "is_CalledProcessError (CalledProcessError rc err) = True"
| "is_CalledProcessError e = False"

subsection \<open>Paths\<close>

text \<open>
  A \<^verbatim>\<open>pathlib.Path\<close> is the list of its parts; an absolute path starts with the part
  \<^verbatim>\<open>/\<close>.  \<open>suffix_of\<close> and \<open>stem\<close> work on a file name as \<^verbatim>\<open>PurePath.suffix\<close> and
  \<^verbatim>\<open>PurePath.stem\<close> do: the suffix starts at the last dot, unless that dot is the first or
  the last character of the name.
\<close>

type_synonym path = "string list"

definition name :: "path \<Rightarrow> string" where
  "name p = (if p = [] \<or> p = [''/''] then [] else last p)"

definition parent :: "path \<Rightarrow> path" where
  "parent p = (if p = [] \<or> p = [''/''] then p else butlast p)"

definition suffix_of :: "string \<Rightarrow> string" where
  "suffix_of nm =
     (let ext = rev (takeWhile (\<lambda>c. c \<noteq> CHR ''.'') (rev nm))
      in if CHR ''.'' \<in> set nm \<and> ext \<noteq> [] \<and> length ext + 1 < length nm
         then CHR ''.'' # ext else [])"

definition stem :: "string \<Rightarrow> string" where
  "stem nm = take (length nm - length (suffix_of nm)) nm"

definition with_suffix :: "path \<Rightarrow> string \<Rightarrow> exn + path" where
  "with_suffix p s =
     (if name p = [] then Inl (ValueError ''path has an empty name'')
      else Inr (butlast p @ [stem (name p) @ s]))"

fun split_on :: "char \<Rightarrow> string \<Rightarrow> string list" where
  "split_on c [] = [[]]"
| "split_on c (x # xs) =
     (if x = c then [] # split_on c xs
      else (case split_on c xs of [] \<Rightarrow> [[x]] | w # ws \<Rightarrow> (x # w) # ws))"

fun join :: "string \<Rightarrow> string list \<Rightarrow> string" where
  "join sep [] = []"
| "join sep [x] = x"
| "join sep (x # y # ys) = x @ sep @ join sep (y # ys)"

definition Path :: "string \<Rightarrow> path" where
  "Path s = (if take 1 s = ''/'' then [''/''] else [])
            @ filter (\<lambda>c. c \<noteq> [] \<and> c \<noteq> ''.'') (split_on CHR ''/'' s)"

definition joinpath :: "path \<Rightarrow> string \<Rightarrow> path" where
  "joinpath p s = (if take 1 s = ''/'' then Path s else p @ Path s)"

definition str_path :: "path \<Rightarrow> string" where
  "str_path p =
     (case p of [] \<Rightarrow> ''.''
      | x # xs \<Rightarrow> if x = ''/'' then ''/'' @ join ''/'' xs else join ''/'' p)"

subsection \<open>The filesystem\<close>

text \<open>
  The filesystem maps a path, as the program writes it, to a file with its contents or to
  a directory.  \<open>mkdir\<close> is \<^verbatim>\<open>Path.mkdir(parents=True, exist_ok=True)\<close>, \<open>rmtree\<close> is
  \<^verbatim>\<open>shutil.rmtree\<close>, \<open>move\<close> is \<^verbatim>\<open>shutil.move\<close>, \<open>unlink\<close> is \<^verbatim>\<open>Path.unlink\<close>.
\<close>

datatype node = File string | Dir

type_synonym fs = "path \<rightharpoonup> node"

definition exists :: "fs \<Rightarrow> path \<Rightarrow> bool" where
  "exists f p = (f p \<noteq> None)"

definition mkdir :: "path \<Rightarrow> fs \<Rightarrow> exn + fs" where
  "mkdir p f =
     (if \<exists>q \<in> set (prefixes p). (case f q of Some (File c) \<Rightarrow> True | _ \<Rightarrow> False)
      then Inl (OSError ''File exists'')
      else Inr (\<lambda>q. if q \<noteq> [] \<and> prefix q p \<and> f q = None then Some Dir else f q))"

definition rmtree :: "path \<Rightarrow> fs \<Rightarrow> exn + fs" where
  "rmtree d f =
     (if f d = Some Dir then Inr (\<lambda>q. if prefix d q then None else f q)
      else Inl (OSError ''not a directory''))"

definition rename :: "path \<Rightarrow> path \<Rightarrow> fs \<Rightarrow> fs" where
  "rename src dst f =
     (if src = dst then f
      else (\<lambda>q. if prefix dst q then f (src @ drop (length dst) q)
                else if prefix src q then None else f q))"

definition move :: "path \<Rightarrow> path \<Rightarrow> fs \<Rightarrow> exn + fs" where
  "move src dst f =
     (if f src = None then Inl (FileNotFoundError ''No such file or directory'')
      else if f dst = Some Dir then
        (if f (dst @ [name src]) \<noteq> None
         then Inl (OSError ''Destination path already exists'')
         else Inr (rename src (dst @ [name src]) f))
      else Inr (rename src dst f))"

definition unlink :: "path \<Rightarrow> fs \<Rightarrow> exn + fs" where
  "unlink p f =
     (case f p of
        None \<Rightarrow> Inl (FileNotFoundError ''No such file or directory'')
      | Some Dir \<Rightarrow> Inl (OSError ''Is a directory'')
      | Some (File c) \<Rightarrow> Inr (f(p := None)))"

definition read_file :: "path \<Rightarrow> fs \<Rightarrow> exn + string" where
  "read_file p f =
     (case f p of
        None \<Rightarrow> Inl (FileNotFoundError ''No such file or directory'')
      | Some Dir \<Rightarrow> Inl (OSError ''Is a directory'')
      | Some (File c) \<Rightarrow> Inr c)"

text \<open>
  \<^verbatim>\<open>open(p, "w")\<close> followed by \<^verbatim>\<open>f.write(c)\<close>.  The directory of \<open>p\<close> is taken to exist:
  the program writes only beside a file it has read or into a directory it has created.
\<close>

definition write_file :: "path \<Rightarrow> string \<Rightarrow> fs \<Rightarrow> exn + fs" where
  "write_file p c f =
     (if f p = Some Dir then Inl (OSError ''Is a directory'') else Inr (f(p \<mapsto> File c)))"

subsection \<open>Events, the state and the control operators\<close>

datatype level = DEBUG | INFO | WARNING | ERROR | CRITICAL

text \<open>
  The body of a request: \<^verbatim>\<open>requests.post(url, files=..., data=...)\<close> with the name, the
  contents and the content type of the uploaded file and the form fields, or
  \<^verbatim>\<open>requests.post(url, json=payload)\<close>.
\<close>

datatype 'f body =
    Multipart string string string "(string \<times> string) list"
  | JsonBody "'f json"

datatype 'f event =
    Print string
  | Log level string
  | Notification string string
  | Which string
  | Subprocess "string list" "string option"
  | HttpPost "'f json" "'f body"
  | Extract "'f json" string
  | Mkdtemp path
  | Move path path
  | Rmtree path

record 'f world =
  files :: fs
  trace :: "'f event list"

type_synonym ('f, 'a) prog = "'f world \<Rightarrow> 'f world \<times> (exn + 'a)"

definition ret :: "'a \<Rightarrow> ('f, 'a) prog" where
  "ret x w = (w, Inr x)"

definition raise :: "exn \<Rightarrow> ('f, 'a) prog" where
  "raise e w = (w, Inl e)"

definition seq :: "('f, 'a) prog \<Rightarrow> ('a \<Rightarrow> ('f, 'b) prog) \<Rightarrow> ('f, 'b) prog" where
  "seq m k w = (case m w of (w', Inl e) \<Rightarrow> (w', Inl e) | (w', Inr x) \<Rightarrow> k x w')"

definition emit :: "'f event \<Rightarrow> ('f, unit) prog" where
  "emit ev w = (w\<lparr>trace := trace w @ [ev]\<rparr>, Inr ())"

text \<open>An operation on the filesystem, and a pure computation that may raise.\<close>

definition on_files :: "(fs \<Rightarrow> exn + fs) \<Rightarrow> ('f, unit) prog" where
  "on_files op w = (case op (files w) of Inl e \<Rightarrow> (w, Inl e) | Inr f \<Rightarrow> (w\<lparr>files := f\<rparr>, Inr ()))"

definition from_files :: "(fs \<Rightarrow> exn + 'a) \<Rightarrow> ('f, 'a) prog" where
  "from_files rd w = (w, rd (files w))"

definition lift :: "exn + 'a \<Rightarrow> ('f, 'a) prog" where
  "lift r w = (w, r)"

text \<open>
  \<^verbatim>\<open>try: m except C as e: h(e)\<close>, where \<open>catches\<close> tells the exceptions of class \<^verbatim>\<open>C\<close>, and
  \<^verbatim>\<open>try: m finally: c\<close>: the cleanup \<open>c\<close> runs however \<open>m\<close> ends, and an exception of the
  cleanup replaces the outcome of \<open>m\<close>.
\<close>

definition try_except ::
  "('f, 'a) prog \<Rightarrow> (exn \<Rightarrow> bool) \<Rightarrow> (exn \<Rightarrow> ('f, 'a) prog) \<Rightarrow> ('f, 'a) prog" where
  "try_except m catches h w =
     (case m w of
        (w', Inl e) \<Rightarrow> if catches e then h e w' else (w', Inl e)
      | (w', Inr x) \<Rightarrow> (w', Inr x))"

definition try_finally :: "('f, 'a) prog \<Rightarrow> ('f, unit) prog \<Rightarrow> ('f, 'a) prog" where
  "try_finally m c w =
     (case m w of (w', r) \<Rightarrow>
        (case c w' of (w'', Inl e) \<Rightarrow> (w'', Inl e) | (w'', Inr u) \<Rightarrow> (w'', r)))"

subsection \<open>The collaborators\<close>

record completed =
  returncode :: int
  stdout :: string
  stderr :: string

text \<open>
  A response of \<^verbatim>\<open>requests.post\<close>: its status code and what \<^verbatim>\<open>response.json()\<close> gives, the
  parsed body or the exception raised.
\<close>

record 'f response =
  status_code :: int
  json_body :: "exn + 'f json"

text \<open>
  The answers of the world outside the script.
  \<^item> \<open>which\<close>: whether \<^verbatim>\<open>shutil.which\<close> finds an executable of that name.
  \<^item> \<open>json_load\<close>: what \<^verbatim>\<open>open(path, "r", encoding="utf-8")\<close> followed by \<^verbatim>\<open>json.load\<close> does
    on a file of these contents: the exception raised, or the members of the parsed JSON
    object, the format of a configuration file (\<^verbatim>\<open>dict.update\<close> on other JSON values is
    outside this model).
  \<^item> \<open>notify_raises\<close>: the text of the exception that the desktop notification raises, if
    any.
  \<^item> \<open>mkdtemp\<close>: the path of the fresh directory that \<^verbatim>\<open>tempfile.mkdtemp\<close> creates.
  \<^item> \<open>extract_info\<close>: the download engine run with these options on this URL: the
    filesystem it leaves and the file name \<^verbatim>\<open>prepare_filename\<close> reports, or the exception.
  \<^item> \<open>glob\<close>: the paths \<^verbatim>\<open>Path.glob\<close> yields for a directory and a pattern, in its order.
  \<^item> \<open>st_mtime\<close>: the modification time of a path.
  \<^item> \<open>resolve\<close>: \<^verbatim>\<open>Path.resolve\<close>.
  \<^item> \<open>slugify\<close>: the slug of a string.
  \<^item> \<open>run_process\<close>: an external process run to its end with this command line and
    standard input: the filesystem it leaves and its return code and output, or the
    exception of \<^verbatim>\<open>subprocess.run\<close> itself.
  \<^item> \<open>requests_post\<close>: the response to a POST, or the exception of the transport.
  \<^item> \<open>json_dump\<close>: the text \<^verbatim>\<open>json.dump(v, f, indent=2, ensure_ascii=False)\<close> writes.
  \<^item> \<open>str_json\<close>: \<^verbatim>\<open>str(v)\<close> of a value that is not a string.
\<close>

record ('f, 't) env =
  which :: "string \<Rightarrow> bool"
  json_load :: "string \<Rightarrow> exn + (string \<times> 'f json) list"
  notify_raises :: "string \<Rightarrow> string \<Rightarrow> string option"
  mkdtemp :: "fs \<Rightarrow> exn + path"
  extract_info :: "'f json \<Rightarrow> string \<Rightarrow> fs \<Rightarrow> fs \<times> (exn + string)"
  glob :: "fs \<Rightarrow> path \<Rightarrow> string \<Rightarrow> path list"
  st_mtime :: "fs \<Rightarrow> path \<Rightarrow> 't"
  resolve :: "path \<Rightarrow> path"
  slugify :: "string \<Rightarrow> string"
  run_process :: "string list \<Rightarrow> string option \<Rightarrow> fs \<Rightarrow> fs \<times> (exn + completed)"
  requests_post :: "'f json \<Rightarrow> 'f body \<Rightarrow> exn + 'f response"
  json_dump :: "'f json \<Rightarrow> string"
  str_json :: "'f json \<Rightarrow> string"

section \<open>Configuration and utilities\<close>

type_synonym 'f config = "string \<rightharpoonup> 'f json"

definition default_downloader_args :: "'f json" where
  "default_downloader_args = JObj
     [(''format'', JStr ''bestaudio/best''),
      (''postprocessors'', JArr [JObj
         [(''key'', JStr ''FFmpegExtractAudio''),
          (''preferredcodec'', JStr ''mp3''),
          (''preferredquality'', JStr ''192'')]]),
      (''outtmpl'', JStr ''%(title)s.%(ext)s''),
      (''quiet'', JBool True),
      (''no_warnings'', JBool True)]"

definition DEFAULT_CONFIG :: "'f config" where
  "DEFAULT_CONFIG = map_of
     [(''whisper_url'', JStr ''http://192.168.1.212:8080/inference''),
      (''ollama_url'', JStr ''http://192.168.1.212:11434/api/generate''),
      (''summarize_model'', JStr ''qwen2.5''),
      (''output_directory'', JStr ''output/''),
      (''downloader_args'', default_downloader_args)]"

definition CONFIG_FILE_NAME :: string where
  "CONFIG_FILE_NAME = ''transcribe_config.json''"

definition SYSTEM_PROMPT :: string where
  "SYSTEM_PROMPT = join [CHR 0x0A]
     [''You are an expert technical writer and analyst. Your task is to generate a comprehensive, structured Markdown outline based on the following transcript.'',
      [],
      ''Follow these strict guidelines:'',
      ''1. **Structure**: Use hierarchical headings (H1 for title, H2 for main topics, H3 for subtopics) to reflect the logical flow.'',
      ''2. **Detail**: Go beyond high-level summaries. Capture specific facts, decisions, technical specifications, and key arguments.'',
      ''3. **Clarity**: Use bullet points for readability. Bold key terms and entities.'',
      ''4. **Action Items**: Explicitly list any action items, next steps, or open questions at the end.'',
      ''5. **Context**: Preserving the context of the discussion is crucial. Do not over-generalize.'',
      ''6. **Format**: Return ONLY the Markdown content. Do not include conversational filler like 'Here is the outline'.'']"

text \<open>
  \<^verbatim>\<open>config.update(user_config)\<close>: the keys of \<^verbatim>\<open>user_config\<close> are assigned one after the
  other, in the order of the dictionary.
\<close>

definition dict_update :: "('k \<rightharpoonup> 'v) \<Rightarrow> ('k \<times> 'v) list \<Rightarrow> ('k \<rightharpoonup> 'v)" where
  "dict_update config user_config = foldl (\<lambda>m (k, v). m(k \<mapsto> v)) config user_config"

text \<open>
  \<^verbatim>\<open>load_config\<close>: only \<^verbatim>\<open>Path(CONFIG_FILE_NAME)\<close>, a path relative to the working
  directory, is tested and opened.  Only \<^verbatim>\<open>json.JSONDecodeError\<close> is handled.
\<close>

definition load_config :: "('f, 't) env \<Rightarrow> ('f, 'f config) prog" where
  "load_config env =
     (let config_path = Path CONFIG_FILE_NAME; config = DEFAULT_CONFIG
      in seq (from_files (\<lambda>f. Inr (exists f config_path))) (\<lambda>found.
         if found then
           try_except
             (seq (from_files (read_file config_path)) (\<lambda>contents.
              seq (lift (json_load env contents)) (\<lambda>user_config.
              ret (dict_update config user_config))))
             (\<lambda>e. case e of JSONDecodeError m \<Rightarrow> True | _ \<Rightarrow> False)
             (\<lambda>e. seq (emit (Print (''Warning: Failed to parse config file: '' @ str_exn e
                                      @ ''. Using defaults.''))) (\<lambda>_.
                  ret config))
         else ret config))"

definition notify :: "('f, 't) env \<Rightarrow> string \<Rightarrow> string \<Rightarrow> ('f, unit) prog" where
  "notify env title message =
     seq (emit (Notification title message)) (\<lambda>_.
     case notify_raises env title message of
       None \<Rightarrow> ret ()
     | Some m \<Rightarrow> emit (Log WARNING (''Notification failed: '' @ m)))"

definition check_dependencies :: "('f, 't) env \<Rightarrow> ('f, unit) prog" where
  "check_dependencies env =
     seq (emit (Which ''ffmpeg'')) (\<lambda>_.
     if \<not> which env ''ffmpeg'' then
       seq (emit (Log ERROR ''FFmpeg not found in PATH. Please install FFmpeg.'')) (\<lambda>_.
       raise (SystemExit 1))
     else ret ())"

text \<open>Dictionary access on the members of a JSON object.\<close>

definition getitem :: "(string \<rightharpoonup> 'v) \<Rightarrow> string \<Rightarrow> exn + 'v" where
  "getitem d k = (case d k of None \<Rightarrow> Inl (KeyError k) | Some v \<Rightarrow> Inr v)"

fun set_item :: "(string \<times> 'v) list \<Rightarrow> string \<Rightarrow> 'v \<Rightarrow> (string \<times> 'v) list" where
  "set_item [] k v = [(k, v)]"
| "set_item ((k', v') # kvs) k v =
     (if k' = k then (k, v) # kvs else (k', v') # set_item kvs k v)"

text \<open>
  \<^verbatim>\<open>subprocess.run(cmd, input=..., check=True)\<close>: a return code other than 0 raises
  \<^verbatim>\<open>CalledProcessError\<close>.
\<close>

definition subprocess_run ::
  "('f, 't) env \<Rightarrow> string list \<Rightarrow> string option \<Rightarrow> ('f, completed) prog" where
  "subprocess_run env cmd inp =
     seq (emit (Subprocess cmd inp)) (\<lambda>_.
     seq (\<lambda>w. case run_process env cmd inp (files w) of (f, r) \<Rightarrow> (w\<lparr>files := f\<rparr>, r)) (\<lambda>process.
     if returncode process \<noteq> 0
     then raise (CalledProcessError (returncode process) (stderr process))
     else ret process))"

definition post :: "('f, 't) env \<Rightarrow> 'f json \<Rightarrow> 'f body \<Rightarrow> ('f, 'f response) prog" where
  "post env url b = seq (emit (HttpPost url b)) (\<lambda>_. lift (requests_post env url b))"

text \<open>
  \<^verbatim>\<open>response.raise_for_status()\<close>: a status from 400 to 599 raises \<^verbatim>\<open>HTTPError\<close>, a
  \<^verbatim>\<open>RequestException\<close>; its text is shortened to the status code.
\<close>

definition raise_for_status :: "'f response \<Rightarrow> ('f, unit) prog" where
  "raise_for_status response =
     (if 400 \<le> status_code response \<and> status_code response < 600
      then raise (RequestException (str_int (status_code response) @ '' Error''))
      else ret ())"

section \<open>Pipeline components\<close>

subsection \<open>Downloader\<close>

text \<open>
  \<^verbatim>\<open>Downloader.__init__\<close>:
  \<^verbatim>\<open>config.get("downloader_args", DEFAULT_CONFIG["downloader_args"])\<close>.
\<close>

definition Downloader :: "'f config \<Rightarrow> 'f json" where
  "Downloader config =
     (case config ''downloader_args'' of None \<Rightarrow> default_downloader_args | Some v \<Rightarrow> v)"

text \<open>
  \<^verbatim>\<open>found_files.sort(key=lambda f: f.stat().st_mtime, reverse=True)\<close>: Python's sort is
  stable, and with \<^verbatim>\<open>reverse=True\<close> elements of equal key keep their order.
\<close>

definition sort_reverse :: "('a \<Rightarrow> 't::linorder) \<Rightarrow> 'a list \<Rightarrow> 'a list" where
  "sort_reverse key xs = rev (sort_key key (rev xs))"

text \<open>
  The options handed to the engine: \<^verbatim>\<open>opts = self.ydl_opts.copy()\<close>, then \<^verbatim>\<open>outtmpl\<close> is
  prefixed with the output directory and \<^verbatim>\<open>paths\<close> is set.
\<close>

definition make_opts :: "'f json \<Rightarrow> path \<Rightarrow> exn + 'f json" where
  "make_opts ydl_opts output_dir =
     (case ydl_opts of
        JObj opts \<Rightarrow>
          (case map_of opts ''outtmpl'' of
             None \<Rightarrow> Inl (KeyError ''outtmpl'')
           | Some (JStr t) \<Rightarrow>
               Inr (JObj (set_item
                     (set_item opts ''outtmpl'' (JStr (str_path (joinpath output_dir t))))
                     ''paths'' (JObj [(''home'', JStr (str_path output_dir))])))
           | Some v \<Rightarrow> Inl (TypeError ''unsupported operand type(s) for /''))
      | JArr vs \<Rightarrow> Inl (TypeError ''list indices must be integers or slices, not str'')
      | v \<Rightarrow> Inl (AttributeError ''object has no attribute 'copy' ''))"

definition download :: "('f, 't::linorder) env \<Rightarrow> 'f json \<Rightarrow> string \<Rightarrow> path \<Rightarrow> ('f, path) prog" where
  "download env ydl_opts url output_dir =
     seq (emit (Log INFO (''Downloading audio from: '' @ url))) (\<lambda>_.
     seq (on_files (mkdir output_dir)) (\<lambda>_.
     seq (lift (make_opts ydl_opts output_dir)) (\<lambda>opts.
     try_except
       (seq (emit (Extract opts url)) (\<lambda>_.
        seq (\<lambda>w. case extract_info env opts url (files w) of (f, r) \<Rightarrow> (w\<lparr>files := f\<rparr>, r))
          (\<lambda>filename.
        let base_name = stem (name (Path filename)) in
        seq (from_files (\<lambda>f. Inr (glob env f output_dir (base_name @ ''.*'')))) (\<lambda>found_files.
        if found_files = [] then raise (FileNotFoundError ''Downloaded file not found.'')
        else
          seq (from_files (\<lambda>f. Inr (sort_reverse (st_mtime env f) found_files))) (\<lambda>sorted.
          case sorted of
            [] \<Rightarrow> raise (OSError ''list index out of range'')
          | final_path # rest \<Rightarrow>
              seq (emit (Log INFO (''Download complete: '' @ name final_path))) (\<lambda>_.
              ret final_path))))))
       is_Exception
       (\<lambda>e. seq (emit (Log ERROR (''Download failed: '' @ str_exn e))) (\<lambda>_. raise e)))))"

subsection \<open>Transcriber\<close>

definition convert_to_wav_16k :: "('f, 't) env \<Rightarrow> path \<Rightarrow> ('f, path) prog" where
  "convert_to_wav_16k env input_path =
     seq (lift (with_suffix input_path ''.wav'')) (\<lambda>output_path.
     seq (emit (Log INFO (''Converting '' @ name input_path @ '' to 16kHz WAV...''))) (\<lambda>_.
     seq (subprocess_run env
            [''ffmpeg'', ''-y'', ''-i'', str_path input_path,
             ''-ar'', ''16000'', ''-ac'', ''1'', ''-loglevel'', ''error'',
             str_path output_path] None) (\<lambda>_.
     ret output_path)))"

text \<open>
  \<^verbatim>\<open>str.strip()\<close>: the white space among the code points below 256.
\<close>

definition isspace :: "char \<Rightarrow> bool" where
  "isspace c = (let n = (of_char c :: nat)
                in (9 \<le> n \<and> n \<le> 13) \<or> (28 \<le> n \<and> n \<le> 32) \<or> n = 133 \<or> n = 160)"

definition strip :: "string \<Rightarrow> string" where
  "strip s = rev (dropWhile isspace (rev (dropWhile isspace s)))"

text \<open>
  \<^verbatim>\<open>result.get("text", "").strip()\<close> and \<^verbatim>\<open>result.get("segments", [])\<close> on the parsed
  response.
\<close>

definition get_text :: "'f json \<Rightarrow> exn + string" where
  "get_text result =
     (case result of
        JObj kvs \<Rightarrow>
          (case map_of kvs ''text'' of
             None \<Rightarrow> Inr (strip [])
           | Some (JStr s) \<Rightarrow> Inr (strip s)
           | Some v \<Rightarrow> Inl (AttributeError ''object has no attribute 'strip' ''))
      | v \<Rightarrow> Inl (AttributeError ''object has no attribute 'get' ''))"

definition get_segments :: "'f json \<Rightarrow> exn + 'f json" where
  "get_segments result =
     (case result of
        JObj kvs \<Rightarrow> (case map_of kvs ''segments'' of None \<Rightarrow> Inr (JArr []) | Some v \<Rightarrow> Inr v)
      | v \<Rightarrow> Inl (AttributeError ''object has no attribute 'get' ''))"

text \<open>
  \<^verbatim>\<open>Transcriber.transcribe\<close>.  The conversion is called before the \<^verbatim>\<open>try\<close> statement; the
  \<^verbatim>\<open>finally\<close> clause belongs to the upload and the writing of the results.  A file opened
  for writing is created empty before the text to write is computed.
\<close>

definition transcribe :: "('f, 't) env \<Rightarrow> 'f json \<Rightarrow> path \<Rightarrow> ('f, path \<times> path) prog" where
  "transcribe env server_url audio_path =
     seq (convert_to_wav_16k env audio_path) (\<lambda>wav_path.
     seq (emit (Log INFO ''Uploading to Whisper server...'')) (\<lambda>_.
     try_finally
       (seq (from_files (read_file wav_path)) (\<lambda>f.
        seq (post env server_url
               (Multipart (name wav_path) f ''audio/wav''
                  [(''response_format'', ''verbose_json''), (''temperature'', ''0.0'')]))
          (\<lambda>response.
        seq (raise_for_status response) (\<lambda>_.
        seq (lift (json_body response)) (\<lambda>result.
        let base_name = stem (name audio_path);
            txt_path = joinpath (parent audio_path) (base_name @ ''.txt'');
            json_path = joinpath (parent audio_path) (base_name @ ''_timestamps.json'')
        in
        seq (on_files (write_file txt_path [])) (\<lambda>_.
        seq (lift (get_text result)) (\<lambda>text.
        seq (on_files (write_file txt_path text)) (\<lambda>_.
        seq (on_files (write_file json_path [])) (\<lambda>_.
        seq (lift (get_segments result)) (\<lambda>segments.
        seq (on_files (write_file json_path (json_dump env segments))) (\<lambda>_.
        seq (emit (Log INFO (''Transcription saved to '' @ name txt_path))) (\<lambda>_.
        ret (txt_path, json_path)))))))))))))
       (seq (from_files (\<lambda>f. Inr (exists f wav_path \<and> wav_path \<noteq> audio_path))) (\<lambda>delete.
        if delete then on_files (unlink wav_path) else ret ()))))"

subsection \<open>Summarizer\<close>

text \<open>\<^verbatim>\<open>str.lower()\<close> on the code points below 256.\<close>

definition lower_char :: "char \<Rightarrow> char" where
  "lower_char c =
     (let n = (of_char c :: nat)
      in if (65 \<le> n \<and> n \<le> 90) \<or> (192 \<le> n \<and> n \<le> 222 \<and> n \<noteq> 215)
         then char_of (n + 32) else c)"

definition lower :: "string \<Rightarrow> string" where
  "lower s = map lower_char s"

definition model_lower :: "'f json \<Rightarrow> exn + string" where
  "model_lower model =
     (case model of
        JStr s \<Rightarrow> Inr (lower s)
      | v \<Rightarrow> Inl (AttributeError ''object has no attribute 'lower' ''))"

definition format_json :: "('f, 't) env \<Rightarrow> 'f json \<Rightarrow> string" where
  "format_json env v = (case v of JStr s \<Rightarrow> s | _ \<Rightarrow> str_json env v)"

definition summarize_gemini :: "('f, 't) env \<Rightarrow> string \<Rightarrow> path \<Rightarrow> ('f, unit) prog" where
  "summarize_gemini env transcript_text output_path =
     seq (emit (Which ''gemini'')) (\<lambda>_.
     if \<not> which env ''gemini'' then
       raise (FileNotFoundError ''The 'gemini' CLI tool is required but not found in PATH.'')
     else
       try_except
         (seq (subprocess_run env [''gemini'', ''-p'', SYSTEM_PROMPT] (Some transcript_text))
            (\<lambda>process.
          seq (on_files (write_file output_path (stdout process))) (\<lambda>_.
          emit (Log INFO (''Summary saved to '' @ name output_path)))))
         is_CalledProcessError
         (\<lambda>e. case e of
            CalledProcessError rc err \<Rightarrow>
              seq (emit (Log ERROR (''Gemini CLI failed: '' @ err))) (\<lambda>_.
              raise (RuntimeError (''Gemini CLI failed with return code '' @ str_int rc)))
          | _ \<Rightarrow> raise e))"

definition summarize_ollama ::
  "('f, 't) env \<Rightarrow> 'f json \<Rightarrow> 'f json \<Rightarrow> string \<Rightarrow> path \<Rightarrow> ('f, unit) prog" where
  "summarize_ollama env server_url model transcript_text output_path =
     (let prompt = SYSTEM_PROMPT @ [CHR 0x0A, CHR 0x0A] @ ''Transcript:'' @ [CHR 0x0A]
                   @ transcript_text;
          payload = JObj [(''model'', model), (''prompt'', JStr prompt), (''stream'', JBool False)]
      in try_except
           (seq (post env server_url (JsonBody payload)) (\<lambda>response.
            seq (raise_for_status response) (\<lambda>_.
            seq (lift (json_body response)) (\<lambda>result.
            seq (lift (case result of
                         JObj kvs \<Rightarrow>
                           Inr (case map_of kvs ''response'' of None \<Rightarrow> JStr [] | Some v \<Rightarrow> v)
                       | v \<Rightarrow> Inl (AttributeError ''object has no attribute 'get' '')))
              (\<lambda>summary_text.
            seq (on_files (write_file output_path [])) (\<lambda>_.
            seq (case summary_text of
                   JStr s \<Rightarrow> on_files (write_file output_path s)
                 | v \<Rightarrow> raise (TypeError ''write() argument must be str'')) (\<lambda>_.
            emit (Log INFO (''Summary saved to '' @ name output_path)))))))))
           is_RequestException
           (\<lambda>e. seq (emit (Log ERROR (''Summarization failed: '' @ str_exn e))) (\<lambda>_. raise e)))"

definition summarize ::
  "('f, 't) env \<Rightarrow> 'f json \<Rightarrow> 'f json \<Rightarrow> path \<Rightarrow> path \<Rightarrow> ('f, unit) prog" where
  "summarize env server_url model transcript_path output_path =
     seq (emit (Log INFO (''Summarizing '' @ name transcript_path @ '' using ''
                          @ format_json env model @ ''...''))) (\<lambda>_.
     seq (from_files (read_file transcript_path)) (\<lambda>transcript_text.
     seq (lift (model_lower model)) (\<lambda>m.
     if m = ''gemini'' then summarize_gemini env transcript_text output_path
     else summarize_ollama env server_url model transcript_text output_path)))"

section \<open>Main logic\<close>

text \<open>The parsed command line.\<close>

record args =
  input :: string
  no_summary :: bool
  verbose :: bool

text \<open>
  The verbose branch: \<^verbatim>\<open>config["downloader_args"]["quiet"] = False\<close> and the two
  assignments after it, when the key \<^verbatim>\<open>downloader_args\<close> is in the configuration.
\<close>

definition set_verbose :: "'f config \<Rightarrow> exn + 'f config" where
  "set_verbose config =
     (case config ''downloader_args'' of
        None \<Rightarrow> Inr config
      | Some (JObj kvs) \<Rightarrow>
          Inr (config(''downloader_args'' \<mapsto>
                 JObj (set_item (set_item (set_item kvs ''quiet'' (JBool False))
                                   ''no_warnings'' (JBool False))
                         ''verbose'' (JBool True))))
      | Some v \<Rightarrow> Inl (TypeError ''object does not support item assignment''))"

text \<open>
  Step 1, input handling.  The result is \<^verbatim>\<open>audio_path\<close>, \<^verbatim>\<open>original_filename\<close> and
  \<^verbatim>\<open>temp_download_dir\<close> (\<open>None\<close> for a local file).  \<^verbatim>\<open>sys.exit(1)\<close> raises
  \<^verbatim>\<open>SystemExit\<close>.
\<close>

definition input_handling ::
  "('f, 't::linorder) env \<Rightarrow> 'f json \<Rightarrow> string \<Rightarrow> ('f, path \<times> string \<times> path option) prog" where
  "input_handling env downloader input_arg =
     (if prefix ''http://'' input_arg \<or> prefix ''https://'' input_arg then
        try_except
          (seq (from_files (mkdtemp env)) (\<lambda>temp_download_dir.
           seq (emit (Mkdtemp temp_download_dir)) (\<lambda>_.
           seq (on_files (\<lambda>f. Inr (f(temp_download_dir \<mapsto> Dir)))) (\<lambda>_.
           seq (download env downloader input_arg temp_download_dir) (\<lambda>audio_path.
           ret (audio_path, name audio_path, Some temp_download_dir))))))
          is_Exception
          (\<lambda>e. seq (emit (Log ERROR (''Download Failed: '' @ str_exn e))) (\<lambda>_.
               seq (notify env ''Download Failed'' (str_exn e)) (\<lambda>_.
               raise (SystemExit 1))))
      else
        (let audio_path = resolve env (Path input_arg) in
         seq (from_files (\<lambda>f. Inr (exists f audio_path))) (\<lambda>found.
         if \<not> found then
           seq (emit (Log ERROR (''File not found: '' @ str_path audio_path))) (\<lambda>_.
           raise (SystemExit 1))
         else ret (audio_path, name audio_path, None))))"

text \<open>\<^verbatim>\<open>shutil.move(str(src), str(dst))\<close> and \<^verbatim>\<open>shutil.rmtree(d)\<close> as calls of the script.\<close>

definition shutil_move :: "path \<Rightarrow> path \<Rightarrow> ('f, unit) prog" where
  "shutil_move src dst = seq (emit (Move src dst)) (\<lambda>_. on_files (move src dst))"

definition shutil_rmtree :: "path \<Rightarrow> ('f, unit) prog" where
  "shutil_rmtree d = seq (emit (Rmtree d)) (\<lambda>_. on_files (rmtree d))"

text \<open>
  Step 2, workspace creation and the placement of the audio file.  The result is
  \<^verbatim>\<open>slug_base\<close>, \<^verbatim>\<open>slug_dir\<close> and \<^verbatim>\<open>final_audio_path\<close>.
\<close>

definition workspace ::
  "('f, 't) env \<Rightarrow> 'f config \<Rightarrow> path \<Rightarrow> string \<Rightarrow> path option
     \<Rightarrow> ('f, string \<times> path \<times> path) prog" where
  "workspace env config audio_path original_filename temp_download_dir =
     (let slug_base = slugify env (stem (name (Path original_filename))) in
      seq (lift (case config ''output_directory'' of
                   None \<Rightarrow> Inr (Path ''output/'')
                 | Some (JStr s) \<Rightarrow> Inr (Path s)
                 | Some v \<Rightarrow> Inl (TypeError ''expected str, bytes or os.PathLike object'')))
        (\<lambda>output_base_dir.
      let slug_dir = joinpath output_base_dir slug_base in
      seq (from_files (\<lambda>f. Inr (exists f slug_dir))) (\<lambda>found.
      seq (if found then
             emit (Log WARNING (''Directory '' @ [CHR 0x27] @ name slug_dir @ [CHR 0x27]
                                @ '' already exists. Merging/Overwriting.''))
           else
             seq (on_files (mkdir slug_dir)) (\<lambda>_.
             emit (Log INFO (''Created workspace: '' @ str_path slug_dir)))) (\<lambda>_.
      let final_audio_path = joinpath slug_dir original_filename in
      case temp_download_dir of
        Some d \<Rightarrow>
          seq (shutil_move audio_path final_audio_path) (\<lambda>_.
          seq (shutil_rmtree d) (\<lambda>_.
          ret (slug_base, slug_dir, final_audio_path)))
      | None \<Rightarrow>
          if parent audio_path \<noteq> slug_dir then
            seq (shutil_move audio_path final_audio_path) (\<lambda>_.
            ret (slug_base, slug_dir, final_audio_path))
          else ret (slug_base, slug_dir, audio_path)))))"

text \<open>
  Step 4, summarization.  The result is the local variable \<^verbatim>\<open>summary_path\<close>: it is
  assigned before the \<^verbatim>\<open>try\<close> statement when a summary is asked for, and unbound
  (\<open>None\<close>) otherwise.
\<close>

definition summarization ::
  "('f, 't) env \<Rightarrow> args \<Rightarrow> 'f json \<Rightarrow> 'f json \<Rightarrow> string \<Rightarrow> path \<Rightarrow> path \<Rightarrow> string
     \<Rightarrow> ('f, path option) prog" where
  "summarization env a ollama_url model slug_base slug_dir transcript_path original_filename =
     (if \<not> no_summary a then
        (let summary_path = joinpath slug_dir (slug_base @ ''_summary.md'') in
         seq (try_except
                (seq (summarize env ollama_url model transcript_path summary_path) (\<lambda>_.
                 notify env ''Pipeline Complete'' (''Processed '' @ original_filename)))
                is_Exception
                (\<lambda>e. seq (emit (Log ERROR (''Summarization failed: '' @ str_exn e))) (\<lambda>_.
                     notify env ''Summarization Failed'' (str_exn e)))) (\<lambda>_.
         ret (Some summary_path)))
      else
        seq (emit (Log INFO ''Skipping summary generation.'')) (\<lambda>_.
        seq (notify env ''Transcription Complete'' (''Transcribed '' @ original_filename)) (\<lambda>_.
        ret None)))"

text \<open>
  The final report.  The summary line is printed when
  \<^verbatim>\<open>not args.no_summary and 'summary_path' in locals()\<close>.
\<close>

definition report :: "args \<Rightarrow> path \<Rightarrow> path \<Rightarrow> path \<Rightarrow> path option \<Rightarrow> ('f, unit) prog" where
  "report a slug_dir final_audio_path transcript_path summary_path =
     seq (emit (Print (CHR 0x0A # replicate 40 CHR ''=''))) (\<lambda>_.
     seq (emit (Print ''SUCCESS'')) (\<lambda>_.
     seq (emit (Print (replicate 40 CHR ''=''))) (\<lambda>_.
     seq (emit (Print (''Workspace: '' @ str_path slug_dir))) (\<lambda>_.
     seq (emit (Print ('' - Audio:      '' @ name final_audio_path))) (\<lambda>_.
     seq (emit (Print ('' - Transcript: '' @ name transcript_path))) (\<lambda>_.
     seq (case summary_path of
            Some p \<Rightarrow> if \<not> no_summary a then emit (Print ('' - Summary:    '' @ name p))
                      else ret ()
          | None \<Rightarrow> ret ()) (\<lambda>_.
     emit (Print (replicate 40 CHR ''='')))))))))"

text \<open>
  The start of \<^verbatim>\<open>main\<close>, up to the construction of the three components.  The result is
  the configuration, the options of the downloader, the URL of the transcriber, and the
  URL and the model of the summarizer.
\<close>

definition startup ::
  "('f, 't) env \<Rightarrow> args \<Rightarrow> ('f, 'f config \<times> 'f json \<times> 'f json \<times> 'f json \<times> 'f json) prog" where
  "startup env a =
     seq (check_dependencies env) (\<lambda>_.
     seq (load_config env) (\<lambda>config0.
     seq (if verbose a then
            seq (emit (Log DEBUG ''Verbose mode enabled.'')) (\<lambda>_. lift (set_verbose config0))
          else ret config0) (\<lambda>config.
     seq (emit (Log INFO ''Loaded configuration.'')) (\<lambda>_.
     let downloader = Downloader config in
     seq (lift (getitem config ''whisper_url'')) (\<lambda>whisper_url.
     seq (lift (getitem config ''ollama_url'')) (\<lambda>ollama_url.
     seq (lift (getitem config ''summarize_model'')) (\<lambda>model.
     ret (config, downloader, whisper_url, ollama_url, model))))))))"

text \<open>
  Step 3, transcription, with the handler of \<^verbatim>\<open>main\<close> around it.
\<close>

definition transcription ::
  "('f, 't) env \<Rightarrow> 'f json \<Rightarrow> path \<Rightarrow> ('f, path \<times> path) prog" where
  "transcription env whisper_url final_audio_path =
     try_except
       (transcribe env whisper_url final_audio_path)
       is_Exception
       (\<lambda>e. seq (emit (Log ERROR (''Transcription failed: '' @ str_exn e))) (\<lambda>_.
            seq (notify env ''Transcription Failed'' (str_exn e)) (\<lambda>_.
            raise (SystemExit 1))))"

text \<open>The body of the outer \<^verbatim>\<open>try\<close> statement of \<^verbatim>\<open>main\<close>.\<close>

definition main_body :: "('f, 't::linorder) env \<Rightarrow> args \<Rightarrow> ('f, unit) prog" where
  "main_body env a =
     seq (startup env a) (\<lambda>(config, downloader, whisper_url, ollama_url, model).
     seq (input_handling env downloader (input a))
       (\<lambda>(audio_path, original_filename, temp_download_dir).
     seq (workspace env config audio_path original_filename temp_download_dir)
       (\<lambda>(slug_base, slug_dir, final_audio_path).
     seq (transcription env whisper_url final_audio_path) (\<lambda>(transcript_path, json_path).
     seq (summarization env a ollama_url model slug_base slug_dir transcript_path
            original_filename) (\<lambda>summary_path.
     report a slug_dir final_audio_path transcript_path summary_path)))))"

text \<open>
  \<^verbatim>\<open>main\<close>: the final state and the exit status of the process.  \<^verbatim>\<open>SystemExit\<close> passes
  both handlers of the outer \<^verbatim>\<open>try\<close> statement.
\<close>

definition main :: "('f, 't::linorder) env \<Rightarrow> args \<Rightarrow> 'f world \<Rightarrow> 'f world \<times> int" where
  "main env a w =
     (case main_body env a w of
        (w', Inr u) \<Rightarrow> (w', 0)
      | (w', Inl KeyboardInterrupt) \<Rightarrow>
          (w'\<lparr>trace := trace w' @ [Log INFO ''Process interrupted by user.'']\<rparr>, 130)
      | (w', Inl (SystemExit c)) \<Rightarrow> (w', c)
      | (w', Inl e) \<Rightarrow>
          (w'\<lparr>trace := trace w' @ [Log CRITICAL (''An unexpected error occurred: '' @ str_exn e)]\<rparr>,
           1))"

section \<open>Example environments\<close>

text \<open>
  An environment in which every tool is installed, no file parses, and no service
  answers; the examples below replace the fields they need.
\<close>

definition sample_env :: "(unit, nat) env" where
  "sample_env =
     \<lparr>which = (\<lambda>n. True),
      json_load = (\<lambda>c. Inl (JSONDecodeError ''Expecting value: line 1 column 1 (char 0)'')),
      notify_raises = (\<lambda>title message. None),
      mkdtemp = (\<lambda>f. Inr [''/'', ''tmp'', ''tmpk3v9x2'']),
      extract_info = (\<lambda>opts url f. (f, Inl (OSError ''Unable to download webpage''))),
      glob = (\<lambda>f d pat. []),
      st_mtime = (\<lambda>f p. 0),
      resolve = (\<lambda>p. if take 1 p = [''/''] then p else [''/'', ''work''] @ p),
      slugify = lower,
      run_process = (\<lambda>cmd inp f. (f, Inr \<lparr>returncode = 0, stdout = [], stderr = []\<rparr>)),
      requests_post = (\<lambda>url b. Inl (RequestException ''Connection refused'')),
      json_dump = (\<lambda>v. ''[]''),
      str_json = (\<lambda>v. ''None'')\<rparr>"

definition empty_world :: "unit world" where
  "empty_world = \<lparr>files = Map.empty, trace = []\<rparr>"

text \<open>
  Configuration files: one in the working directory that sets the output directory, one
  only in the per-user configuration directory, and one that is not UTF-8 text.
\<close>

definition custom_config_env :: "(unit, nat) env" where
  "custom_config_env =
     sample_env\<lparr>json_load := (\<lambda>c. Inr [(''output_directory'', JStr ''custom_output/'')])\<rparr>"

definition custom_config_world :: "unit world" where
  "custom_config_world =
     \<lparr>files = [[''transcribe_config.json''] \<mapsto> File ''{\"output_directory\": \"custom_output/\"}''],
      trace = []\<rparr>"

definition fallback_config_env :: "(unit, nat) env" where
  "fallback_config_env =
     sample_env\<lparr>json_load := (\<lambda>c. Inr [(''output_directory'', JStr ''fallback_output/'')])\<rparr>"

definition fallback_config_world :: "unit world" where
  "fallback_config_world =
     \<lparr>files = [[''/'', ''home'', ''user'', ''.config'', ''transcribe'', ''transcribe_config.json'']
                 \<mapsto> File ''{\"output_directory\": \"fallback_output/\"}''],
      trace = []\<rparr>"




text \<open>
  Downloads into the temporary directory: the engine leaves the downloaded container and
  the converted audio, the older and the newer file; or it leaves nothing that matches.
\<close>

definition download_dir :: path where
  "download_dir = [''/'', ''tmp'', ''tmpk3v9x2'']"

definition two_candidates_env :: "(unit, nat) env" where
  "two_candidates_env =
     sample_env\<lparr>
       extract_info := (\<lambda>opts url f.
          (f(download_dir @ [''Talk.webm''] \<mapsto> File ''webm'',
             download_dir @ [''Talk.mp3''] \<mapsto> File ''mp3''),
           Inr ''/tmp/tmpk3v9x2/Talk.webm'')),
       glob := (\<lambda>f d pat.
          if pat = ''Talk.*''
          then filter (\<lambda>p. f p \<noteq> None) [d @ [''Talk.webm''], d @ [''Talk.mp3'']] else []),
       st_mtime := (\<lambda>f p. if name p = ''Talk.mp3'' then 2000 else 1000)\<rparr>"

definition no_candidate_env :: "(unit, nat) env" where
  "no_candidate_env =
     sample_env\<lparr>extract_info := (\<lambda>opts url f. (f, Inr ''/tmp/tmpk3v9x2/Talk.webm''))\<rparr>"

text \<open>
  Transcription of \<^verbatim>\<open>output/talk/talk.mp3\<close>.  In the first environment the transcoder
  writes part of the waveform file and exits with status 1.  In the second the transcoder
  succeeds and the speech-to-text service answers with a text and one segment, while the
  generation service cannot be reached.
\<close>

definition talk_mp3 :: path where
  "talk_mp3 = [''output'', ''talk'', ''talk.mp3'']"

definition talk_wav :: path where
  "talk_wav = [''output'', ''talk'', ''talk.wav'']"

definition talk_world :: "unit world" where
  "talk_world = \<lparr>files = [[''output'', ''talk''] \<mapsto> Dir, talk_mp3 \<mapsto> File ''ID3''], trace = []\<rparr>"

definition ffmpeg_fails_env :: "(unit, nat) env" where
  "ffmpeg_fails_env =
     sample_env\<lparr>run_process := (\<lambda>cmd inp f.
        (f(talk_wav \<mapsto> File ''RIFF''),
         Inr \<lparr>returncode = 1, stdout = [],
              stderr = ''Invalid data found when processing input''\<rparr>))\<rparr>"

definition whisper_segments :: "unit json" where
  "whisper_segments =
     JArr [JObj [(''start'', JInt 0), (''end'', JInt 1), (''text'', JStr ''Hello world'')]]"

definition whisper_result :: "unit json" where
  "whisper_result = JObj [(''text'', JStr '' Hello world''), (''segments'', whisper_segments)]"

definition segments_text :: string where
  "segments_text = join [CHR 0x0A]
     [''['',
      ''  {'',
      ''    \"start\": 0,'',
      ''    \"end\": 1,'',
      ''    \"text\": \"Hello world\"'',
      ''  }'',
      '']'']"


definition transcribing_env :: "(unit, nat) env" where
  "transcribing_env =
     sample_env\<lparr>
       run_process := (\<lambda>cmd inp f.
          (f(talk_wav \<mapsto> File ''RIFF''), Inr \<lparr>returncode = 0, stdout = [], stderr = []\<rparr>)),
       requests_post := (\<lambda>url b.
          case b of
            Multipart fname contents ctype form \<Rightarrow>
              Inr \<lparr>status_code = 200, json_body = Inr whisper_result\<rparr>
          | JsonBody payload \<Rightarrow> Inl (RequestException ''Connection refused'')),
       json_dump := (\<lambda>v. if v = whisper_segments then segments_text else ''null'')\<rparr>"

text \<open>Kinds of events, to count the calls a function makes.\<close>

fun is_HttpPost :: "'f event \<Rightarrow> bool" where
  "is_HttpPost (HttpPost url b) = True"
| "is_HttpPost e = False"

fun is_Subprocess :: "'f event \<Rightarrow> bool" where
  "is_Subprocess (Subprocess cmd inp) = True"
| "is_Subprocess e = False"

fun is_Rmtree :: "'f event \<Rightarrow> bool" where
  "is_Rmtree (Rmtree d) = True"
| "is_Rmtree e = False"

fun is_Extract :: "'f event \<Rightarrow> bool" where
  "is_Extract (Extract opts url) = True"
| "is_Extract e = False"

text \<open>
  Summarization of \<^verbatim>\<open>output/talk/talk.txt\<close> on a host where the \<^verbatim>\<open>gemini\<close> tool is not
  installed.
\<close>

definition talk_txt :: path where
  "talk_txt = [''output'', ''talk'', ''talk.txt'']"

definition talk_summary :: path where
  "talk_summary = [''output'', ''talk'', ''talk_summary.md'']"

definition transcript_world :: "unit world" where
  "transcript_world =
     \<lparr>files = [[''output'', ''talk''] \<mapsto> Dir, talk_txt \<mapsto> File ''Hello world''], trace = []\<rparr>"

definition no_gemini_env :: "(unit, nat) env" where
  "no_gemini_env = sample_env\<lparr>which := (\<lambda>n. n \<noteq> ''gemini'')\<rparr>"

text \<open>
  \<open>emits P m\<close>: whatever the state, \<open>m\<close> only adds events to the trace, and every event
  it adds satisfies \<open>P\<close>.
\<close>

definition emits :: "('f event \<Rightarrow> bool) \<Rightarrow> ('f, 'a) prog \<Rightarrow> bool" where
  "emits P m = (\<forall>w. \<exists>evs. trace (fst (m w)) = trace w @ evs \<and> (\<forall>e \<in> set evs. P e))"

text \<open>Command lines: a URL with an uppercase scheme, a URL, and a local file.\<close>

definition uppercase_args :: args where
  "uppercase_args = \<lparr>input = ''HTTP://example.com/talk.mp3'', no_summary = False, verbose = False\<rparr>"

definition url_args :: args where
  "url_args = \<lparr>input = ''https://example.com/talk'', no_summary = False, verbose = False\<rparr>"

definition local_args :: args where
  "local_args = \<lparr>input = ''talk.mp3'', no_summary = False, verbose = False\<rparr>"

text \<open>
  A filesystem with the directory \<^verbatim>\<open>/tmp\<close>, and the state of a run on a URL in it when the
  download starts.
\<close>

definition tmp_world :: "unit world" where
  "tmp_world = \<lparr>files = [[''/''] \<mapsto> Dir, [''/'', ''tmp''] \<mapsto> Dir], trace = []\<rparr>"

definition url_start_world :: "unit world" where
  "url_start_world =
     \<lparr>files = [[''/''] \<mapsto> Dir, [''/'', ''tmp''] \<mapsto> Dir, download_dir \<mapsto> Dir],
      trace = [Which ''ffmpeg'', Log INFO ''Loaded configuration.'', Mkdtemp download_dir]\<rparr>"

text \<open>
  A working directory \<^verbatim>\<open>/work\<close> that holds the audio file \<^verbatim>\<open>talk.mp3\<close> and no
  configuration file.
\<close>

definition work_talk_mp3 :: path where
  "work_talk_mp3 = [''/'', ''work'', ''talk.mp3'']"

definition work_world :: "unit world" where
  "work_world =
     \<lparr>files = [[''/''] \<mapsto> Dir, [''/'', ''work''] \<mapsto> Dir, work_talk_mp3 \<mapsto> File ''ID3''],
      trace = []\<rparr>"

section \<open>Properties of the configuration\<close>

lemmas prog_defs = seq_def ret_def raise_def emit_def on_files_def from_files_def lift_def
  try_except_def try_finally_def

lemma Path_CONFIG_FILE_NAME: "Path CONFIG_FILE_NAME = [''transcribe_config.json'']"
  by (simp add: Path_def CONFIG_FILE_NAME_def)

lemma load_config_absent:
  "files w (Path CONFIG_FILE_NAME) = None \<Longrightarrow> load_config env w = (w, Inr DEFAULT_CONFIG)"
  by (simp add: load_config_def Let_def prog_defs exists_def)

lemma load_config_parsed:
  "files w (Path CONFIG_FILE_NAME) = Some (File c) \<Longrightarrow> json_load env c = Inr ov \<Longrightarrow>
   load_config env w = (w, Inr (dict_update DEFAULT_CONFIG ov))"
  by (simp add: load_config_def Let_def prog_defs exists_def read_file_def)


lemma dict_update_Cons: "dict_update m ((k, v) # xs) = dict_update (m(k \<mapsto> v)) xs"
  by (simp add: dict_update_def)

lemma dict_update_map_add: "dict_update m xs = m ++ map_of (rev xs)"
proof (induction xs arbitrary: m)
  case Nil
  then show ?case by (simp add: dict_update_def)
next
  case (Cons x xs)
  obtain k v where x: "x = (k, v)" by (cases x)
  have "dict_update m (x # xs) = m(k \<mapsto> v) ++ map_of (rev xs)"
    unfolding x dict_update_Cons by (rule Cons.IH)
  also have "\<dots> = m ++ (map_of [(k, v)] ++ map_of (rev xs))"
    by (simp add: map_add_assoc [symmetric])
  finally show ?case by (simp add: x)
qed

lemma dict_update_present:
  assumes "distinct (map fst xs)" "(k, v) \<in> set xs"
  shows "dict_update m xs k = Some v"
proof -
  have "distinct (map fst (rev xs))" using assms(1) by (simp add: rev_map [symmetric])
  then have "map_of (rev xs) k = Some v" using assms(2) by simp
  then show ?thesis by (simp add: dict_update_map_add map_add_def)
qed

lemma dict_update_absent:
  assumes "k \<notin> fst ` set xs"
  shows "dict_update m xs k = m k"
proof -
  have "map_of (rev xs) k = None" using assms by (simp add: map_of_eq_None_iff)
  then show ?thesis by (simp add: dict_update_map_add map_add_def)
qed

lemma dict_update_dom: "dom m \<subseteq> dom (dict_update m xs)"
  by (auto simp: dict_update_map_add)

text \<open>
  C2.  The claim: the override file is looked for first in the working directory and then
  in the per-user configuration directory, so that an override present only at the
  per-user location is still loaded.  The code does not do this: with no file in the
  working directory and an override of \<^verbatim>\<open>output_directory\<close> in the per-user directory,
  \<^verbatim>\<open>load_config\<close> returns the defaults, whose output directory is \<^verbatim>\<open>output/\<close>.
\<close>

theorem load_config_ignores_per_user_file:
  "load_config fallback_config_env fallback_config_world
     = (fallback_config_world, Inr DEFAULT_CONFIG) \<and>
   (DEFAULT_CONFIG :: unit config) ''output_directory'' = Some (JStr ''output/'')"
  by (simp add: load_config_absent Path_CONFIG_FILE_NAME fallback_config_world_def
      DEFAULT_CONFIG_def)

text \<open>
  C4.  The merge of an override is key by key: every key of the override gets the value of
  the override, every other key keeps its default, and no default key is lost; and
  without a configuration file the result is the default configuration.
\<close>

theorem load_config_shallow_merge:
  fixes env :: "('f, 't) env" and ov :: "(string \<times> 'f json) list"
  assumes "files w (Path CONFIG_FILE_NAME) = Some (File c)"
    and "json_load env c = Inr ov"
    and "distinct (map fst ov)"
  shows "(\<exists>cfg. load_config env w = (w, Inr cfg) \<and>
            (\<forall>k v. (k, v) \<in> set ov \<longrightarrow> cfg k = Some v) \<and>
            (\<forall>k. k \<notin> fst ` set ov \<longrightarrow> cfg k = DEFAULT_CONFIG k) \<and>
            dom (DEFAULT_CONFIG :: 'f config) \<subseteq> dom cfg) \<and>
         (\<forall>w0 :: 'f world. files w0 (Path CONFIG_FILE_NAME) = None \<longrightarrow>
            load_config env w0 = (w0, Inr DEFAULT_CONFIG))"
proof -
  let ?cfg = "dict_update (DEFAULT_CONFIG :: 'f config) ov"
  have run: "load_config env w = (w, Inr ?cfg)"
    using assms(1,2) by (rule load_config_parsed)
  have present: "\<forall>k v. (k, v) \<in> set ov \<longrightarrow> ?cfg k = Some v"
    using assms(3) by (simp add: dict_update_present)
  have absent: "\<forall>k. k \<notin> fst ` set ov \<longrightarrow> ?cfg k = DEFAULT_CONFIG k"
    by (simp add: dict_update_absent)
  have kept: "dom (DEFAULT_CONFIG :: 'f config) \<subseteq> dom ?cfg"
    by (rule dict_update_dom)
  have none: "\<forall>w0 :: 'f world. files w0 (Path CONFIG_FILE_NAME) = None \<longrightarrow>
      load_config env w0 = (w0, Inr DEFAULT_CONFIG)"
    by (simp add: load_config_absent)
  show ?thesis
    by (intro conjI exI [of _ ?cfg]) (fact run present absent kept none)+
qed

theorem load_config_shallow_merge_witness:
  "\<exists>cfg. load_config custom_config_env custom_config_world = (custom_config_world, Inr cfg) \<and>
     cfg ''output_directory'' = Some (JStr ''custom_output/'') \<and>
     cfg ''whisper_url'' = Some (JStr ''http://192.168.1.212:8080/inference'') \<and>
     dom (DEFAULT_CONFIG :: unit config) \<subseteq> dom cfg \<and>
     load_config custom_config_env empty_world = (empty_world, Inr DEFAULT_CONFIG)"
proof -
  let ?ov = "[(''output_directory'', JStr ''custom_output/'' :: unit json)]"
  have f: "files custom_config_world (Path CONFIG_FILE_NAME)
      = Some (File ''{\"output_directory\": \"custom_output/\"}'')"
    by (simp add: custom_config_world_def Path_CONFIG_FILE_NAME)
  have j: "json_load custom_config_env ''{\"output_directory\": \"custom_output/\"}'' = Inr ?ov"
    by (simp add: custom_config_env_def sample_env_def)
  have d: "distinct (map fst ?ov)" by simp
  from load_config_shallow_merge [OF f j d]
  obtain cfg where run: "load_config custom_config_env custom_config_world
        = (custom_config_world, Inr cfg)"
    and present: "\<forall>k v. (k, v) \<in> set ?ov \<longrightarrow> cfg k = Some v"
    and absent: "\<forall>k. k \<notin> fst ` set ?ov \<longrightarrow> cfg k = DEFAULT_CONFIG k"
    and kept: "dom (DEFAULT_CONFIG :: unit config) \<subseteq> dom cfg"
    and none: "\<forall>w0 :: unit world. files w0 (Path CONFIG_FILE_NAME) = None \<longrightarrow>
        load_config custom_config_env w0 = (w0, Inr DEFAULT_CONFIG)"
    by blast
  have "cfg ''output_directory'' = Some (JStr ''custom_output/'')"
    using present by simp
  moreover have "cfg ''whisper_url'' = Some (JStr ''http://192.168.1.212:8080/inference'')"
    using absent by (simp add: DEFAULT_CONFIG_def)
  moreover have "load_config custom_config_env empty_world = (empty_world, Inr DEFAULT_CONFIG)"
    using none by (simp add: empty_world_def)
  ultimately show ?thesis using run kept by blast
qed




section \<open>Properties of the downloader\<close>

lemma sort_reverse_head:
  fixes key :: "'a \<Rightarrow> 't::linorder"
  assumes "xs \<noteq> []"
  shows "\<exists>p rest. sort_reverse key xs = p # rest \<and> p \<in> set xs \<and> (\<forall>q \<in> set xs. key q \<le> key p)"
proof -
  let ?ys = "sort_key key (rev xs)"
  have ne: "?ys \<noteq> []" using assms by (metis set_sort set_rev set_empty)
  have set: "set ?ys = set xs" by simp
  have split: "?ys = butlast ?ys @ [last ?ys]" using ne by simp
  have "sorted (map key ?ys)" by (rule sorted_sort_key)
  then have "sorted (map key (butlast ?ys) @ [key (last ?ys)])"
    using split by (metis list.simps(8,9) map_append)
  then have le: "\<forall>q \<in> set (butlast ?ys). key q \<le> key (last ?ys)"
    by (simp add: sorted_append)
  have all: "\<forall>q \<in> set ?ys. key q \<le> key (last ?ys)"
  proof
    fix q assume "q \<in> set ?ys"
    then have "q \<in> set (butlast ?ys @ [last ?ys])" using split by simp
    then show "key q \<le> key (last ?ys)" using le by auto
  qed
  have "sort_reverse key xs = last ?ys # rev (butlast ?ys)"
    unfolding sort_reverse_def using split
    by (metis rev.simps(2) rev_append rev_rev_ident append_Cons append_Nil rev_singleton_conv)
  moreover have "last ?ys \<in> set xs" using ne set last_in_set by blast
  ultimately show ?thesis using all set by blast
qed

lemma download_after_extract:
  fixes env :: "('f, 't::linorder) env"
  assumes "mkdir output_dir (files w) = Inr f1"
    and "make_opts ydl_opts output_dir = Inr opts"
    and "extract_info env opts url f1 = (f2, Inr filename)"
    and "found = glob env f2 output_dir (stem (name (Path filename)) @ ''.*'')"
  shows "snd (download env ydl_opts url output_dir w) =
     (if found = [] then Inl (FileNotFoundError ''Downloaded file not found.'')
      else (case sort_reverse (st_mtime env f2) found of
              [] \<Rightarrow> Inl (OSError ''list index out of range'')
            | final_path # rest \<Rightarrow> Inr final_path))"
  using assms
  by (simp add: download_def prog_defs Let_def split: list.splits)

text \<open>
  C6.  After the engine has run, \<^verbatim>\<open>download\<close> takes the files that match the expected
  base name.  When there are several with pairwise distinct modification times it returns
  the one modified last; when there is none it raises \<^verbatim>\<open>FileNotFoundError\<close> and returns no
  path.
\<close>

theorem download_most_recent:
  fixes env :: "('f, 't::linorder) env"
  assumes "mkdir output_dir (files w) = Inr f1"
    and "make_opts ydl_opts output_dir = Inr opts"
    and "extract_info env opts url f1 = (f2, Inr filename)"
    and "found = glob env f2 output_dir (stem (name (Path filename)) @ ''.*'')"
  shows "(1 < length found \<and> distinct (map (st_mtime env f2) found) \<longrightarrow>
           (\<exists>p. snd (download env ydl_opts url output_dir w) = Inr p \<and> p \<in> set found \<and>
                (\<forall>q \<in> set found. q \<noteq> p \<longrightarrow> st_mtime env f2 q < st_mtime env f2 p))) \<and>
         (found = [] \<longrightarrow>
           snd (download env ydl_opts url output_dir w)
             = Inl (FileNotFoundError ''Downloaded file not found.''))"
proof (intro conjI impI)
  assume "found = []"
  then show "snd (download env ydl_opts url output_dir w)
      = Inl (FileNotFoundError ''Downloaded file not found.'')"
    using download_after_extract [OF assms] by simp
next
  assume several: "1 < length found \<and> distinct (map (st_mtime env f2) found)"
  then have ne: "found \<noteq> []" by auto
  from sort_reverse_head [OF ne, of "st_mtime env f2"]
  obtain p rest where sorted: "sort_reverse (st_mtime env f2) found = p # rest"
    and p: "p \<in> set found" and max: "\<forall>q \<in> set found. st_mtime env f2 q \<le> st_mtime env f2 p"
    by blast
  have run: "snd (download env ydl_opts url output_dir w) = Inr p"
    using download_after_extract [OF assms] ne sorted by simp
  have inj: "inj_on (st_mtime env f2) (set found)"
    using several by (simp add: distinct_map)
  have "\<forall>q \<in> set found. q \<noteq> p \<longrightarrow> st_mtime env f2 q < st_mtime env f2 p"
  proof (intro ballI impI)
    fix q assume q: "q \<in> set found" "q \<noteq> p"
    then have "st_mtime env f2 q \<noteq> st_mtime env f2 p" using inj p by (auto dest: inj_onD)
    then show "st_mtime env f2 q < st_mtime env f2 p" using max q(1) by (simp add: less_le)
  qed
  then show "\<exists>p. snd (download env ydl_opts url output_dir w) = Inr p \<and> p \<in> set found \<and>
      (\<forall>q \<in> set found. q \<noteq> p \<longrightarrow> st_mtime env f2 q < st_mtime env f2 p)"
    using run p by blast
qed

lemma mkdir_download_dir:
  "\<exists>f1. mkdir download_dir (files empty_world) = Inr f1"
  by (simp add: mkdir_def empty_world_def)

lemma make_opts_default:
  "\<exists>opts. make_opts (default_downloader_args :: unit json) download_dir = Inr opts"
  by (simp add: make_opts_def default_downloader_args_def)

lemma stem_Talk: "stem (name (Path ''/tmp/tmpk3v9x2/Talk.webm'')) = ''Talk''"
  by (simp add: Path_def name_def stem_def suffix_of_def)

theorem download_most_recent_witness:
  "snd (download two_candidates_env default_downloader_args ''https://example.com/talk''
          download_dir empty_world) = Inr (download_dir @ [''Talk.mp3'']) \<and>
   snd (download no_candidate_env default_downloader_args ''https://example.com/talk''
          download_dir empty_world) = Inl (FileNotFoundError ''Downloaded file not found.'')"
proof -
  obtain f1 where m: "mkdir download_dir (files empty_world) = Inr f1"
    using mkdir_download_dir by blast
  obtain opts :: "unit json" where o: "make_opts default_downloader_args download_dir = Inr opts"
    using make_opts_default by blast
  let ?url = "''https://example.com/talk''"
  let ?f2 = "f1(download_dir @ [''Talk.webm''] \<mapsto> File ''webm'',
                download_dir @ [''Talk.mp3''] \<mapsto> File ''mp3'')"
  let ?found = "[download_dir @ [''Talk.webm''], download_dir @ [''Talk.mp3'']]"
  have e: "extract_info two_candidates_env opts ?url f1 = (?f2, Inr ''/tmp/tmpk3v9x2/Talk.webm'')"
    by (simp add: two_candidates_env_def sample_env_def)
  have g: "?found = glob two_candidates_env ?f2 download_dir
             (stem (name (Path ''/tmp/tmpk3v9x2/Talk.webm'')) @ ''.*'')"
    by (simp add: stem_Talk two_candidates_env_def sample_env_def)
  have several: "1 < length ?found \<and> distinct (map (st_mtime two_candidates_env ?f2) ?found)"
    by (simp add: two_candidates_env_def sample_env_def name_def download_dir_def)
  from download_most_recent [OF m o e g] several
  obtain p where run: "snd (download two_candidates_env default_downloader_args ?url
          download_dir empty_world) = Inr p"
    and p: "p \<in> set ?found"
    and newest: "\<forall>q \<in> set ?found. q \<noteq> p \<longrightarrow>
          st_mtime two_candidates_env ?f2 q < st_mtime two_candidates_env ?f2 p"
    by blast
  have "p \<noteq> download_dir @ [''Talk.webm'']"
  proof
    assume "p = download_dir @ [''Talk.webm'']"
    then show False using newest
      by (simp add: two_candidates_env_def sample_env_def name_def download_dir_def)
  qed
  then have first: "p = download_dir @ [''Talk.mp3'']" using p by simp
  have e0: "extract_info no_candidate_env opts ?url f1 = (f1, Inr ''/tmp/tmpk3v9x2/Talk.webm'')"
    by (simp add: no_candidate_env_def sample_env_def)
  have g0: "[] = glob no_candidate_env f1 download_dir
             (stem (name (Path ''/tmp/tmpk3v9x2/Talk.webm'')) @ ''.*'')"
    by (simp add: no_candidate_env_def sample_env_def)
  have second: "snd (download no_candidate_env default_downloader_args ?url
          download_dir empty_world) = Inl (FileNotFoundError ''Downloaded file not found.'')"
    using download_most_recent [OF m o e0 g0] by simp
  show ?thesis using run first second by simp
qed

section \<open>Properties of the transcriber\<close>

lemma split_on_absent: "c \<notin> set s \<Longrightarrow> split_on c s = [s]"
  by (induction s) auto

lemma Path_single:
  "CHR ''/'' \<notin> set s \<Longrightarrow> s \<noteq> [] \<Longrightarrow> s \<noteq> ''.'' \<Longrightarrow> Path s = [s]"
  by (cases s) (auto simp: Path_def split_on_absent)

lemma joinpath_single:
  "CHR ''/'' \<notin> set s \<Longrightarrow> s \<noteq> [] \<Longrightarrow> s \<noteq> ''.'' \<Longrightarrow> joinpath p s = p @ [s]"
  by (cases s) (auto simp: joinpath_def Path_single)

lemma set_stem: "set (stem nm) \<subseteq> set nm"
  by (simp add: stem_def set_take_subset)

lemma joinpath_stem:
  assumes "CHR ''/'' \<notin> set nm" "CHR ''/'' \<notin> set ext" "2 \<le> length ext"
  shows "joinpath p (stem nm @ ext) = p @ [stem nm @ ext]"
proof (rule joinpath_single)
  show "CHR ''/'' \<notin> set (stem nm @ ext)" using assms set_stem [of nm] by auto
  show "stem nm @ ext \<noteq> []" using assms by auto
  show "stem nm @ ext \<noteq> ''.''"
  proof
    assume "stem nm @ ext = ''.''"
    then have "length (stem nm @ ext) = 1" by simp
    then show False using assms(3) by simp
  qed
qed

lemma parent_eq_butlast: "name p \<noteq> [] \<Longrightarrow> parent p = butlast p"
  by (auto simp: parent_def name_def)

lemma with_suffix_parent:
  "name p \<noteq> [] \<Longrightarrow> with_suffix p s = Inr (parent p @ [stem (name p) @ s])"
  by (simp add: with_suffix_def parent_eq_butlast)

lemma name_talk_mp3: "name talk_mp3 = ''talk.mp3''"
  by (simp add: talk_mp3_def name_def)

lemma parent_talk_mp3: "parent talk_mp3 = [''output'', ''talk'']"
  by (simp add: talk_mp3_def parent_def)

lemma stem_talk_mp3: "stem ''talk.mp3'' = ''talk''"
  by (simp add: stem_def suffix_of_def)

lemma with_suffix_talk_mp3: "with_suffix talk_mp3 ''.wav'' = Inr talk_wav"
  by (simp add: with_suffix_parent name_talk_mp3 parent_talk_mp3 stem_talk_mp3 talk_wav_def)

lemma convert_to_wav_16k_ok:
  assumes "with_suffix audio ''.wav'' = Inr wav"
    and "run_process env [''ffmpeg'', ''-y'', ''-i'', str_path audio, ''-ar'', ''16000'', ''-ac'', ''1'',
           ''-loglevel'', ''error'', str_path wav] None (files w) = (f1, Inr proc)"
    and "returncode proc = 0"
  shows "convert_to_wav_16k env audio w =
     (w\<lparr>files := f1,
        trace := trace w @ [Log INFO (''Converting '' @ name audio @ '' to 16kHz WAV...''),
           Subprocess [''ffmpeg'', ''-y'', ''-i'', str_path audio, ''-ar'', ''16000'', ''-ac'', ''1'',
             ''-loglevel'', ''error'', str_path wav] None]\<rparr>, Inr wav)"
  using assms by (simp add: convert_to_wav_16k_def subprocess_run_def prog_defs)

lemma convert_to_wav_16k_failed:
  assumes "with_suffix audio ''.wav'' = Inr wav"
    and "run_process env [''ffmpeg'', ''-y'', ''-i'', str_path audio, ''-ar'', ''16000'', ''-ac'', ''1'',
           ''-loglevel'', ''error'', str_path wav] None (files w) = (f1, Inr proc)"
    and "returncode proc \<noteq> 0"
  shows "convert_to_wav_16k env audio w =
     (w\<lparr>files := f1,
        trace := trace w @ [Log INFO (''Converting '' @ name audio @ '' to 16kHz WAV...''),
           Subprocess [''ffmpeg'', ''-y'', ''-i'', str_path audio, ''-ar'', ''16000'', ''-ac'', ''1'',
             ''-loglevel'', ''error'', str_path wav] None]\<rparr>,
      Inl (CalledProcessError (returncode proc) (stderr proc)))"
  using assms by (simp add: convert_to_wav_16k_def subprocess_run_def prog_defs)

text \<open>
  When the conversion raises, \<^verbatim>\<open>transcribe\<close> ends there: the \<^verbatim>\<open>try\<close> statement is not
  entered and nothing is cleaned up.
\<close>

lemma transcribe_conversion_raises:
  "convert_to_wav_16k env audio w = (w1, Inl e) \<Longrightarrow> transcribe env url audio w = (w1, Inl e)"
  by (simp add: transcribe_def seq_def)

text \<open>
  When the conversion returns, the \<^verbatim>\<open>finally\<close> clause runs however the upload ends, and
  afterwards no file is left at the path of the waveform, if that path differs from the
  input path.
\<close>

lemma try_finally_cleanup:
  assumes "\<And>w'. P (fst (c w'))"
  shows "P (fst (try_finally m c w))"
proof -
  obtain w' r where m: "m w = (w', r)" by (cases "m w")
  obtain w'' u where c: "c w' = (w'', u)" by (cases "c w'")
  have "fst (try_finally m c w) = fst (c w')"
    using m c by (cases u) (simp_all add: try_finally_def)
  then show ?thesis using assms by simp
qed

lemma transcribe_cleanup_after_conversion:
  assumes "convert_to_wav_16k env audio w = (w1, Inr wav)" and "wav \<noteq> audio"
  shows "files (fst (transcribe env url audio w)) wav \<noteq> Some (File c)"
proof -
  let ?cleanup = "seq (from_files (\<lambda>f. Inr (exists f wav \<and> wav \<noteq> audio)))
      (\<lambda>delete. if delete then on_files (unlink wav) else ret ())
      :: ('a, unit) prog"
  have clean: "files (fst (?cleanup w')) wav \<noteq> Some (File c)" for w'
    using assms(2)
    by (cases "files w' wav"; cases "the (files w' wav)")
       (simp_all add: prog_defs exists_def unlink_def)
  have "fst (transcribe env url audio w)
      = fst (try_finally
          (seq (from_files (read_file wav)) (\<lambda>f.
           seq (post env url
                  (Multipart (name wav) f ''audio/wav''
                     [(''response_format'', ''verbose_json''), (''temperature'', ''0.0'')]))
             (\<lambda>response.
           seq (raise_for_status response) (\<lambda>_.
           seq (lift (json_body response)) (\<lambda>result.
           let base_name = stem (name audio);
               txt_path = joinpath (parent audio) (base_name @ ''.txt'');
               json_path = joinpath (parent audio) (base_name @ ''_timestamps.json'')
           in
           seq (on_files (write_file txt_path [])) (\<lambda>_.
           seq (lift (get_text result)) (\<lambda>text.
           seq (on_files (write_file txt_path text)) (\<lambda>_.
           seq (on_files (write_file json_path [])) (\<lambda>_.
           seq (lift (get_segments result)) (\<lambda>segments.
           seq (on_files (write_file json_path (json_dump env segments))) (\<lambda>_.
           seq (emit (Log INFO (''Transcription saved to '' @ name txt_path))) (\<lambda>_.
           ret (txt_path, json_path)))))))))))))
          ?cleanup
          (w1\<lparr>trace := trace w1 @ [Log INFO ''Uploading to Whisper server...'']\<rparr>))"
    using assms(1) by (simp add: transcribe_def seq_def emit_def)
  then show ?thesis
    using try_finally_cleanup [of "\<lambda>w. files w wav \<noteq> Some (File c)" ?cleanup, OF clean]
    by simp
qed

text \<open>
  C3.  The claim: on every exit path of \<^verbatim>\<open>transcribe\<close>, the failure of the transcoder
  included, the waveform file is deleted if it was created and differs from the input.
  The code does not do this when the transcoder fails: for \<^verbatim>\<open>output/talk/talk.mp3\<close> and a
  transcoder that writes part of \<^verbatim>\<open>output/talk/talk.wav\<close> and exits with status 1,
  \<^verbatim>\<open>transcribe\<close> raises \<^verbatim>\<open>CalledProcessError\<close> and the waveform file is still there.
\<close>

theorem transcribe_failed_conversion_keeps_wav:
  "snd (transcribe ffmpeg_fails_env (JStr ''http://192.168.1.212:8080/inference'') talk_mp3
          talk_world)
     = Inl (CalledProcessError 1 ''Invalid data found when processing input'') \<and>
   files (fst (transcribe ffmpeg_fails_env (JStr ''http://192.168.1.212:8080/inference'')
                 talk_mp3 talk_world)) talk_wav
     = Some (File ''RIFF'') \<and>
   talk_wav \<noteq> talk_mp3"
proof -
  let ?proc = "\<lparr>returncode = 1, stdout = [],
                 stderr = ''Invalid data found when processing input''\<rparr>"
  have run: "run_process ffmpeg_fails_env
       [''ffmpeg'', ''-y'', ''-i'', str_path talk_mp3, ''-ar'', ''16000'', ''-ac'', ''1'',
        ''-loglevel'', ''error'', str_path talk_wav] None (files talk_world)
     = ((files talk_world)(talk_wav \<mapsto> File ''RIFF''), Inr ?proc)"
    by (simp add: ffmpeg_fails_env_def sample_env_def)
  have rc: "returncode ?proc \<noteq> 0" by simp
  note failed = convert_to_wav_16k_failed [OF with_suffix_talk_mp3 run rc]
  show ?thesis
    unfolding transcribe_conversion_raises [OF failed]
    by (simp add: talk_wav_def talk_mp3_def)
qed

text \<open>
  \<^verbatim>\<open>str.strip()\<close> removes a white space prefix and a white space suffix, and what is left
  neither starts nor ends with white space.
\<close>

lemma strip_spec:
  "\<exists>pre post. s = pre @ strip s @ post \<and> (\<forall>c \<in> set pre. isspace c) \<and>
      (\<forall>c \<in> set post. isspace c) \<and>
      (strip s \<noteq> [] \<longrightarrow> \<not> isspace (hd (strip s)) \<and> \<not> isspace (last (strip s)))"
proof -
  let ?t = "dropWhile isspace s"
  let ?u = "dropWhile isspace (rev ?t)"
  have s: "s = takeWhile isspace s @ ?t" by simp
  have t: "?t = rev ?u @ rev (takeWhile isspace (rev ?t))"
    by (metis rev_append rev_rev_ident takeWhile_dropWhile_id)
  have strip: "strip s = rev ?u" by (simp add: strip_def)
  have pre: "\<forall>c \<in> set (takeWhile isspace s). isspace c" by (auto dest: set_takeWhileD)
  have post: "\<forall>c \<in> set (rev (takeWhile isspace (rev ?t))). isspace c"
    by (auto dest: set_takeWhileD)
  have ends: "\<not> isspace (hd (rev ?u)) \<and> \<not> isspace (last (rev ?u))" if ne: "rev ?u \<noteq> []"
  proof
    have "?u \<noteq> []" using ne by simp
    then have "\<not> isspace (hd ?u)" by (rule hd_dropWhile)
    then show "\<not> isspace (last (rev ?u))" using \<open>?u \<noteq> []\<close> by (simp add: last_rev)
    have tne: "?t \<noteq> []" using t ne by (metis Nil_is_append_conv)
    then have "\<not> isspace (hd ?t)" by (rule hd_dropWhile)
    moreover have "hd ?t = hd (rev ?u)" using t ne by (metis hd_append2)
    ultimately show "\<not> isspace (hd (rev ?u))" by simp
  qed
  have "s = takeWhile isspace s @ strip s @ rev (takeWhile isspace (rev ?t))"
    using s t strip by metis
  then show ?thesis using pre post ends strip by metis
qed


lemma strip_Hello: "strip '' Hello world'' = ''Hello world''"
  by (simp add: strip_def isspace_def)


section \<open>Properties of the summarizer\<close>

lemma summarize_gemini_calls:
  "\<exists>evs. trace (fst (summarize_gemini env transcript_text output_path w)) = trace w @ evs \<and>
     filter is_HttpPost evs = [] \<and>
     filter is_Subprocess evs =
       (if which env ''gemini''
        then [Subprocess [''gemini'', ''-p'', SYSTEM_PROMPT] (Some transcript_text)] else [])"
proof (cases "which env ''gemini''")
  case False
  then show ?thesis by (simp add: summarize_gemini_def prog_defs)
next
  case True
  obtain f r where run: "run_process env [''gemini'', ''-p'', SYSTEM_PROMPT] (Some transcript_text)
      (files w) = (f, r)"
    by (cases "run_process env [''gemini'', ''-p'', SYSTEM_PROMPT] (Some transcript_text) (files w)")
  show ?thesis
    using True run
    by (cases r)
       (auto simp: summarize_gemini_def subprocess_run_def prog_defs write_file_def
             split: exn.splits if_splits)
qed

lemma summarize_ollama_calls:
  "\<exists>evs. trace (fst (summarize_ollama env server_url model transcript_text output_path w))
       = trace w @ evs \<and>
     filter is_Subprocess evs = [] \<and>
     filter is_HttpPost evs =
       [HttpPost server_url (JsonBody (JObj
          [(''model'', model),
           (''prompt'', JStr (SYSTEM_PROMPT @ [CHR 0x0A, CHR 0x0A] @ ''Transcript:'' @ [CHR 0x0A]
                              @ transcript_text)),
           (''stream'', JBool False)]))]"
  by (auto simp: summarize_ollama_def post_def raise_for_status_def prog_defs write_file_def Let_def
           split: sum.splits exn.splits if_splits json.splits option.splits)

lemma lower_Gemini: "lower ''Gemini'' = ''gemini''"
  by code_simp

lemma lower_qwen: "lower ''qwen2.5'' \<noteq> ''gemini''"
  by (simp add: lower_def)

text \<open>
  C8, as stated: whenever the lowercased model name is the sentinel, \<^verbatim>\<open>summarize\<close> invokes
  the external tool.  This is false on a host without the tool: for the model name
  \<^verbatim>\<open>Gemini\<close>, \<^verbatim>\<open>summarize\<close> raises \<^verbatim>\<open>FileNotFoundError\<close> and starts no process.
\<close>

theorem summarize_tool_missing_counterexample:
  "lower ''Gemini'' = ''gemini'' \<and>
   snd (summarize no_gemini_env (JStr ''http://192.168.1.212:11434/api/generate'')
          (JStr ''Gemini'') talk_txt talk_summary transcript_world)
     = Inl (FileNotFoundError ''The 'gemini' CLI tool is required but not found in PATH.'') \<and>
   filter is_Subprocess
     (trace (fst (summarize no_gemini_env (JStr ''http://192.168.1.212:11434/api/generate'')
                    (JStr ''Gemini'') talk_txt talk_summary transcript_world))) = []"
  by (simp add: lower_Gemini summarize_def summarize_gemini_def model_lower_def prog_defs
      read_file_def transcript_world_def talk_txt_def no_gemini_env_def sample_env_def)

text \<open>
  C8, amended: \<^verbatim>\<open>summarize\<close> dispatches on the lowercased model name alone.  When it is
  the sentinel, no HTTP request is issued, and the external tool is invoked, with the
  fixed system prompt as an argument and the transcript on standard input, if the tool
  is found on the search path; if it is not found, no process is started.  For every
  other model name exactly one HTTP POST is issued and no process is started; the body of
  the request carries the model name as given and a prompt that contains the transcript.
\<close>

theorem summarize_dispatch:
  fixes env :: "('f, 't) env"
  assumes "files w transcript_path = Some (File transcript_text)"
  shows "\<exists>evs. trace (fst (summarize env server_url (JStr model_name) transcript_path
                             output_path w)) = trace w @ evs \<and>
     (if lower model_name = ''gemini''
      then filter is_HttpPost evs = [] \<and>
           filter is_Subprocess evs =
             (if which env ''gemini''
              then [Subprocess [''gemini'', ''-p'', SYSTEM_PROMPT] (Some transcript_text)]
              else [])
      else filter is_Subprocess evs = [] \<and>
           (\<exists>prompt. filter is_HttpPost evs =
                [HttpPost server_url (JsonBody (JObj
                   [(''model'', JStr model_name), (''prompt'', JStr prompt),
                    (''stream'', JBool False)]))] \<and>
              sublist transcript_text prompt))"
proof -
  let ?start = "Log INFO (''Summarizing '' @ name transcript_path @ '' using ''
                          @ format_json env (JStr model_name) @ ''...'')"
  let ?w1 = "w\<lparr>trace := trace w @ [?start]\<rparr>"
  have step: "summarize env server_url (JStr model_name) transcript_path output_path w =
      (if lower model_name = ''gemini''
       then summarize_gemini env transcript_text output_path ?w1
       else summarize_ollama env server_url (JStr model_name) transcript_text output_path ?w1)"
    using assms by (simp add: summarize_def model_lower_def prog_defs read_file_def)
  show ?thesis
  proof (cases "lower model_name = ''gemini''")
    case True
    from summarize_gemini_calls [of env transcript_text output_path ?w1]
    obtain evs where evs: "trace (fst (summarize_gemini env transcript_text output_path ?w1))
          = trace ?w1 @ evs"
      "filter is_HttpPost evs = []"
      "filter is_Subprocess evs =
         (if which env ''gemini''
          then [Subprocess [''gemini'', ''-p'', SYSTEM_PROMPT] (Some transcript_text)] else [])"
      by blast
    have "trace (fst (summarize env server_url (JStr model_name) transcript_path output_path w))
        = trace w @ (?start # evs)"
      using step True evs(1) by simp
    moreover have "filter is_HttpPost (?start # evs) = []" using evs(2) by simp
    moreover have "filter is_Subprocess (?start # evs) =
         (if which env ''gemini''
          then [Subprocess [''gemini'', ''-p'', SYSTEM_PROMPT] (Some transcript_text)] else [])"
      using evs(3) by simp
    ultimately show ?thesis using True by (intro exI [of _ "?start # evs"]) simp
  next
    case False
    let ?prompt = "SYSTEM_PROMPT @ [CHR 0x0A, CHR 0x0A] @ ''Transcript:'' @ [CHR 0x0A]
                   @ transcript_text"
    from summarize_ollama_calls [of env server_url "JStr model_name" transcript_text output_path ?w1]
    obtain evs where evs:
      "trace (fst (summarize_ollama env server_url (JStr model_name) transcript_text
                     output_path ?w1)) = trace ?w1 @ evs"
      "filter is_Subprocess evs = []"
      "filter is_HttpPost evs =
         [HttpPost server_url (JsonBody (JObj
            [(''model'', JStr model_name), (''prompt'', JStr ?prompt), (''stream'', JBool False)]))]"
      by blast
    have sub: "sublist transcript_text ?prompt"
      by (metis append.assoc sublist_appendI append_Nil2)
    have "trace (fst (summarize env server_url (JStr model_name) transcript_path output_path w))
        = trace w @ (?start # evs)"
      using step False evs(1) by simp
    moreover have "filter is_Subprocess (?start # evs) = []" using evs(2) by simp
    moreover have "\<exists>prompt. filter is_HttpPost (?start # evs) =
         [HttpPost server_url (JsonBody (JObj
            [(''model'', JStr model_name), (''prompt'', JStr prompt), (''stream'', JBool False)]))]
         \<and> sublist transcript_text prompt"
      using evs(3) sub by (intro exI [of _ ?prompt]) simp
    ultimately show ?thesis using False by (intro exI [of _ "?start # evs"]) simp
  qed
qed

theorem summarize_dispatch_witness:
  "filter is_HttpPost
     (trace (fst (summarize sample_env (JStr ''http://192.168.1.212:11434/api/generate'')
                    (JStr ''Gemini'') talk_txt talk_summary transcript_world))) = [] \<and>
   filter is_Subprocess
     (trace (fst (summarize sample_env (JStr ''http://192.168.1.212:11434/api/generate'')
                    (JStr ''Gemini'') talk_txt talk_summary transcript_world)))
     = [Subprocess [''gemini'', ''-p'', SYSTEM_PROMPT] (Some ''Hello world'')] \<and>
   filter is_Subprocess
     (trace (fst (summarize sample_env (JStr ''http://192.168.1.212:11434/api/generate'')
                    (JStr ''qwen2.5'') talk_txt talk_summary transcript_world))) = [] \<and>
   (\<exists>prompt.
      filter is_HttpPost
        (trace (fst (summarize sample_env (JStr ''http://192.168.1.212:11434/api/generate'')
                       (JStr ''qwen2.5'') talk_txt talk_summary transcript_world)))
        = [HttpPost (JStr ''http://192.168.1.212:11434/api/generate'') (JsonBody (JObj
             [(''model'', JStr ''qwen2.5''), (''prompt'', JStr prompt),
              (''stream'', JBool False)]))] \<and>
      sublist ''Hello world'' prompt)"
proof -
  let ?url = "JStr ''http://192.168.1.212:11434/api/generate'' :: unit json"
  have f: "files transcript_world talk_txt = Some (File ''Hello world'')"
    by (simp add: transcript_world_def talk_txt_def)
  have t: "trace transcript_world = []" by (simp add: transcript_world_def)
  have g: "which sample_env ''gemini''" by (simp add: sample_env_def)
  from summarize_dispatch [OF f, of sample_env ?url "''Gemini''" talk_summary]
  have first: "filter is_HttpPost
       (trace (fst (summarize sample_env ?url (JStr ''Gemini'') talk_txt talk_summary
                      transcript_world))) = [] \<and>
     filter is_Subprocess
       (trace (fst (summarize sample_env ?url (JStr ''Gemini'') talk_txt talk_summary
                      transcript_world)))
       = [Subprocess [''gemini'', ''-p'', SYSTEM_PROMPT] (Some ''Hello world'')]"
    using t g lower_Gemini by auto
  from summarize_dispatch [OF f, of sample_env ?url "''qwen2.5''" talk_summary]
  have second: "filter is_Subprocess
       (trace (fst (summarize sample_env ?url (JStr ''qwen2.5'') talk_txt talk_summary
                      transcript_world))) = [] \<and>
     (\<exists>prompt.
        filter is_HttpPost
          (trace (fst (summarize sample_env ?url (JStr ''qwen2.5'') talk_txt talk_summary
                         transcript_world)))
          = [HttpPost ?url (JsonBody (JObj
               [(''model'', JStr ''qwen2.5''), (''prompt'', JStr prompt),
                (''stream'', JBool False)]))] \<and>
        sublist ''Hello world'' prompt)"
    using t lower_qwen by auto
  show ?thesis using first second by blast
qed

section \<open>The events a function can emit\<close>

lemma emitsI:
  assumes "\<And>w. \<exists>evs. trace (fst (m w)) = trace w @ evs \<and> (\<forall>e \<in> set evs. P e)"
  shows "emits P m"
  using assms by (simp add: emits_def)

lemma emitsD:
  assumes "emits P m"
  obtains evs where "trace (fst (m w)) = trace w @ evs" "\<forall>e \<in> set evs. P e"
  using assms unfolding emits_def by blast

lemma emits_ret: "emits P (ret x)"
  by (simp add: emits_def ret_def)

lemma emits_raise: "emits P (raise e)"
  by (simp add: emits_def raise_def)

lemma emits_lift: "emits P (lift r)"
  by (simp add: emits_def lift_def)

lemma emits_from_files: "emits P (from_files rd)"
  by (simp add: emits_def from_files_def)

lemma emits_on_files: "emits P (on_files op)"
  by (simp add: emits_def on_files_def split: sum.splits)

lemma emits_emit: "P ev \<Longrightarrow> emits P (emit ev)"
  by (simp add: emits_def emit_def)

lemma emits_oracle:
  "emits P (\<lambda>w. case oracle (files w) of (f, r) \<Rightarrow> (w\<lparr>files := f\<rparr>, r))"
  by (simp add: emits_def split: prod.splits)

lemma emits_seq:
  assumes "emits P m" and "\<And>x. emits P (k x)"
  shows "emits P (seq m k)"
proof (rule emitsI)
  fix w
  obtain w' r where m: "m w = (w', r)" by (cases "m w")
  from assms(1) obtain evs where evs: "trace (fst (m w)) = trace w @ evs" "\<forall>e \<in> set evs. P e"
    by (rule emitsD)
  show "\<exists>evs. trace (fst (seq m k w)) = trace w @ evs \<and> (\<forall>e \<in> set evs. P e)"
  proof (cases r)
    case (Inl e)
    then show ?thesis using m evs by (auto simp: seq_def)
  next
    case (Inr x)
    from assms(2) [of x] obtain evs' where
      evs': "trace (fst (k x w')) = trace w' @ evs'" "\<forall>e \<in> set evs'. P e"
      by (rule emitsD)
    have "trace (fst (seq m k w)) = trace w @ (evs @ evs')"
      using m Inr evs(1) evs'(1) by (simp add: seq_def)
    then show ?thesis using evs(2) evs'(2) by (intro exI [of _ "evs @ evs'"]) auto
  qed
qed

lemma emits_try_except:
  assumes "emits P m" and "\<And>e. emits P (h e)"
  shows "emits P (try_except m catches h)"
proof (rule emitsI)
  fix w
  obtain w' r where m: "m w = (w', r)" by (cases "m w")
  from assms(1) obtain evs where evs: "trace (fst (m w)) = trace w @ evs" "\<forall>e \<in> set evs. P e"
    by (rule emitsD)
  show "\<exists>evs. trace (fst (try_except m catches h w)) = trace w @ evs \<and> (\<forall>e \<in> set evs. P e)"
  proof (cases r)
    case (Inr x)
    then show ?thesis using m evs by (auto simp: try_except_def)
  next
    case (Inl e)
    show ?thesis
    proof (cases "catches e")
      case False
      then show ?thesis using m Inl evs by (auto simp: try_except_def)
    next
      case True
      from assms(2) [of e] obtain evs' where
        evs': "trace (fst (h e w')) = trace w' @ evs'" "\<forall>e \<in> set evs'. P e"
        by (rule emitsD)
      have "trace (fst (try_except m catches h w)) = trace w @ (evs @ evs')"
        using m Inl True evs(1) evs'(1) by (simp add: try_except_def)
      then show ?thesis using evs(2) evs'(2) by (intro exI [of _ "evs @ evs'"]) auto
    qed
  qed
qed

lemma emits_try_finally:
  assumes "emits P m" and "emits P c"
  shows "emits P (try_finally m c)"
proof (rule emitsI)
  fix w
  obtain w' r where m: "m w = (w', r)" by (cases "m w")
  obtain w'' u where c: "c w' = (w'', u)" by (cases "c w'")
  from assms(1) obtain evs where evs: "trace (fst (m w)) = trace w @ evs" "\<forall>e \<in> set evs. P e"
    by (rule emitsD)
  from assms(2) obtain evs' where
    evs': "trace (fst (c w')) = trace w' @ evs'" "\<forall>e \<in> set evs'. P e"
    by (rule emitsD)
  have "fst (try_finally m c w) = w''"
    using m c by (cases u) (simp_all add: try_finally_def)
  then have "trace (fst (try_finally m c w)) = trace w @ (evs @ evs')"
    using m c evs(1) evs'(1) by simp
  then show "\<exists>evs. trace (fst (try_finally m c w)) = trace w @ evs \<and> (\<forall>e \<in> set evs. P e)"
    using evs(2) evs'(2) by (intro exI [of _ "evs @ evs'"]) auto
qed

lemma emits_if:
  "(c \<Longrightarrow> emits P m1) \<Longrightarrow> (\<not> c \<Longrightarrow> emits P m2) \<Longrightarrow> emits P (if c then m1 else m2)"
  by simp

lemmas emits_intros = emits_ret emits_raise emits_lift emits_from_files emits_on_files
  emits_oracle emits_seq emits_try_except emits_try_finally emits_if

lemma emits_notify:
  "P (Notification title message) \<Longrightarrow> (\<And>m. P (Log WARNING m)) \<Longrightarrow>
   emits P (notify env title message)"
  by (auto simp: notify_def intro!: emits_intros emits_emit split: option.splits)

lemma emits_subprocess_run:
  "P (Subprocess cmd inp) \<Longrightarrow> emits P (subprocess_run env cmd inp)"
  by (auto simp: subprocess_run_def intro!: emits_intros emits_emit)

lemma emits_post: "P (HttpPost url b) \<Longrightarrow> emits P (post env url b)"
  by (auto simp: post_def intro!: emits_intros emits_emit)

lemma emits_raise_for_status: "emits P (raise_for_status response)"
  by (auto simp: raise_for_status_def intro!: emits_intros)

text \<open>Only the placement of the audio file removes a directory tree.\<close>

lemma emits_startup: "emits (\<lambda>e. \<not> is_Rmtree e \<and> \<not> is_Extract e) (startup env a)"
  by (auto simp: startup_def check_dependencies_def load_config_def Let_def
           intro!: emits_intros emits_emit)

lemma emits_download: "emits (\<lambda>e. \<not> is_Rmtree e) (download env ydl_opts url output_dir)"
  by (auto simp: download_def Let_def intro!: emits_intros emits_emit split: list.splits)

lemma emits_transcribe: "emits (\<lambda>e. \<not> is_Rmtree e) (transcribe env server_url audio_path)"
  by (auto simp: transcribe_def convert_to_wav_16k_def Let_def
           intro!: emits_intros emits_emit emits_subprocess_run emits_post emits_raise_for_status)

lemma emits_transcription:
  "emits (\<lambda>e. \<not> is_Rmtree e) (transcription env whisper_url final_audio_path)"
  by (auto simp: transcription_def intro!: emits_intros emits_emit emits_transcribe emits_notify)

lemma emits_summarize:
  "emits (\<lambda>e. \<not> is_Rmtree e) (summarize env server_url model transcript_path output_path)"
  by (auto simp: summarize_def summarize_gemini_def summarize_ollama_def Let_def
           intro!: emits_intros emits_emit emits_subprocess_run emits_post emits_raise_for_status
           split: exn.splits json.splits)

lemma emits_summarization:
  "emits (\<lambda>e. \<not> is_Rmtree e)
     (summarization env a ollama_url model slug_base slug_dir transcript_path original_filename)"
  by (auto simp: summarization_def Let_def
           intro!: emits_intros emits_emit emits_summarize emits_notify)

lemma emits_report:
  "emits (\<lambda>e. \<not> is_Rmtree e) (report a slug_dir final_audio_path transcript_path summary_path)"
  by (auto simp: report_def intro!: emits_intros emits_emit split: option.splits)

section \<open>Properties of the main logic\<close>

lemma notify_eq:
  "notify env title message w =
     (w\<lparr>trace := trace w @ Notification title message #
          (case notify_raises env title message of
             None \<Rightarrow> []
           | Some m \<Rightarrow> [Log WARNING (''Notification failed: '' @ m)])\<rparr>, Inr ())"
  by (simp add: notify_def prog_defs split: option.splits)

lemma seq_files:
  assumes "\<And>w. files (fst (m w)) = files w" and "\<And>x w. files (fst (k x w)) = files w"
  shows "files (fst (seq m k w)) = files w"
proof -
  obtain w' r where m: "m w = (w', r)" by (cases "m w")
  then have "files w' = files w" using assms(1) [of w] by simp
  then show ?thesis using m assms(2) by (cases r) (simp_all add: seq_def)
qed

lemma try_except_files:
  assumes "\<And>w. files (fst (m w)) = files w" and "\<And>e w. files (fst (h e w)) = files w"
  shows "files (fst (try_except m catches h w)) = files w"
proof -
  obtain w' r where m: "m w = (w', r)" by (cases "m w")
  then have "files w' = files w" using assms(1) [of w] by simp
  then show ?thesis using m assms(2) by (cases r) (simp_all add: try_except_def)
qed

lemma emit_files: "files (fst (emit ev w)) = files w"
  by (simp add: emit_def)

lemma lift_files: "files (fst (lift r w)) = files w"
  by (simp add: lift_def)

lemma ret_files: "files (fst (ret x w)) = files w"
  by (simp add: ret_def)

lemma raise_files: "files (fst (raise e w)) = files w"
  by (simp add: raise_def)

lemma from_files_files: "files (fst (from_files rd w)) = files w"
  by (simp add: from_files_def)

lemmas files_intros = seq_files try_except_files emit_files lift_files ret_files raise_files
  from_files_files

lemma check_dependencies_files: "files (fst (check_dependencies env w)) = files w"
  unfolding check_dependencies_def by (intro files_intros) (simp add: files_intros)

lemma load_config_files: "files (fst (load_config env w)) = files w"
  unfolding load_config_def Let_def
  by (intro files_intros) (simp add: files_intros)

lemma startup_files: "files (fst (startup env a w)) = files w"
  unfolding startup_def Let_def
  by (intro files_intros check_dependencies_files load_config_files)
     (simp add: files_intros)

lemma main_body_after_startup:
  assumes "startup env a w = (w0, Inr (config, downloader, whisper_url, ollama_url, model))"
  shows "main_body env a w =
     seq (input_handling env downloader (input a))
       (\<lambda>(audio_path, original_filename, temp_download_dir).
     seq (workspace env config audio_path original_filename temp_download_dir)
       (\<lambda>(slug_base, slug_dir, final_audio_path).
     seq (transcription env whisper_url final_audio_path) (\<lambda>(transcript_path, json_path).
     seq (summarization env a ollama_url model slug_base slug_dir transcript_path
            original_filename) (\<lambda>summary_path.
     report a slug_dir final_audio_path transcript_path summary_path)))) w0"
  using assms by (simp add: main_body_def seq_def)

lemma input_handling_local:
  assumes "\<not> prefix ''http://'' s" and "\<not> prefix ''https://'' s"
  shows "input_handling env downloader s w0 =
     (if exists (files w0) (resolve env (Path s))
      then (w0, Inr (resolve env (Path s), name (resolve env (Path s)), None))
      else (w0\<lparr>trace := trace w0 @ [Log ERROR (''File not found: ''
                                                 @ str_path (resolve env (Path s)))]\<rparr>,
            Inl (SystemExit 1)))"
  using assms by (simp add: input_handling_def Let_def prog_defs)

lemma input_handling_url:
  assumes "prefix ''http://'' s \<or> prefix ''https://'' s"
    and "mkdtemp env (files w0) = Inr d"
    and "download env downloader s d
           (w0\<lparr>trace := trace w0 @ [Mkdtemp d], files := (files w0)(d \<mapsto> Dir)\<rparr>) = (w2, r)"
  shows "input_handling env downloader s w0 =
     (case r of
        Inr audio_path \<Rightarrow> (w2, Inr (audio_path, name audio_path, Some d))
      | Inl e \<Rightarrow>
          if is_Exception e then
            (w2\<lparr>trace := trace w2 @ Log ERROR (''Download Failed: '' @ str_exn e) #
                  Notification ''Download Failed'' (str_exn e) #
                  (case notify_raises env ''Download Failed'' (str_exn e) of
                     None \<Rightarrow> []
                   | Some m \<Rightarrow> [Log WARNING (''Notification failed: '' @ m)])\<rparr>,
             Inl (SystemExit 1))
          else (w2, Inl e))"
  using assms
  by (cases r) (auto simp: input_handling_def prog_defs notify_eq)

lemma input_handling_url_no_temp:
  assumes "prefix ''http://'' s \<or> prefix ''https://'' s"
    and "mkdtemp env (files w0) = Inl e"
  shows "snd (input_handling env downloader s w0) = Inl (if is_Exception e then SystemExit 1 else e)"
  using assms by (auto simp: input_handling_def prog_defs notify_eq)

lemma main_exit:
  "main_body env a w = (w', Inl (SystemExit c)) \<Longrightarrow> main env a w = (w', c)"
  by (simp add: main_def)

text \<open>
  C9.  After the start of \<^verbatim>\<open>main\<close>, the input is handled as a URL exactly when it starts
  with \<^verbatim>\<open>http://\<close> or \<^verbatim>\<open>https://\<close>, the comparison being case-sensitive.  A URL never
  yields a local file, and a temporary directory that could be created is created for it.
  Any other input is resolved as a local path: when that path exists it is the audio
  file, and when it does not, an error is logged and the process exits with status 1.
\<close>

theorem input_classification:
  fixes env :: "('f, 't::linorder) env"
  assumes "startup env a w = (w0, Inr (config, downloader, whisper_url, ollama_url, model))"
  shows "if prefix ''http://'' (input a) \<or> prefix ''https://'' (input a)
     then (\<forall>p n. snd (input_handling env downloader (input a) w0) \<noteq> Inr (p, n, None)) \<and>
          (\<forall>d. mkdtemp env (files w0) = Inr d \<longrightarrow>
               Mkdtemp d \<in> set (trace (fst (input_handling env downloader (input a) w0))))
     else input_handling env downloader (input a) w0 =
            (if exists (files w0) (resolve env (Path (input a)))
             then (w0, Inr (resolve env (Path (input a)),
                            name (resolve env (Path (input a))), None))
             else (w0\<lparr>trace := trace w0 @ [Log ERROR (''File not found: ''
                              @ str_path (resolve env (Path (input a))))]\<rparr>,
                   Inl (SystemExit 1))) \<and>
          (\<not> exists (files w) (resolve env (Path (input a))) \<longrightarrow> snd (main env a w) = 1)"
proof (cases "prefix ''http://'' (input a) \<or> prefix ''https://'' (input a)")
  case False
  then have no: "\<not> prefix ''http://'' (input a)" "\<not> prefix ''https://'' (input a)" by auto
  note local = input_handling_local [OF no, of env downloader w0]
  have same: "files w0 = files w" using startup_files [of env a w] assms by simp
  have "snd (main env a w) = 1" if "\<not> exists (files w) (resolve env (Path (input a)))"
  proof -
    have "main_body env a w =
        (w0\<lparr>trace := trace w0 @ [Log ERROR (''File not found: ''
                 @ str_path (resolve env (Path (input a))))]\<rparr>, Inl (SystemExit 1))"
      using that same by (simp add: main_body_after_startup [OF assms] local seq_def)
    then show ?thesis by (simp add: main_exit)
  qed
  then show ?thesis using False local by simp
next
  case True
  have never_local: "snd (input_handling env downloader (input a) w0) \<noteq> Inr (p, n, None)" for p n
  proof (cases "mkdtemp env (files w0)")
    case (Inl e)
    then show ?thesis using input_handling_url_no_temp [OF True Inl, of downloader] by simp
  next
    case (Inr d)
    obtain w2 r where dl: "download env downloader (input a) d
        (w0\<lparr>trace := trace w0 @ [Mkdtemp d], files := (files w0)(d \<mapsto> Dir)\<rparr>) = (w2, r)"
      by (cases "download env downloader (input a) d
        (w0\<lparr>trace := trace w0 @ [Mkdtemp d], files := (files w0)(d \<mapsto> Dir)\<rparr>)")
    show ?thesis using input_handling_url [OF True Inr dl] by (cases r) auto
  qed
  have created: "Mkdtemp d \<in> set (trace (fst (input_handling env downloader (input a) w0)))"
    if tmp: "mkdtemp env (files w0) = Inr d" for d
  proof -
    let ?w1 = "w0\<lparr>trace := trace w0 @ [Mkdtemp d], files := (files w0)(d \<mapsto> Dir)\<rparr>"
    obtain w2 r where dl: "download env downloader (input a) d ?w1 = (w2, r)"
      by (cases "download env downloader (input a) d ?w1")
    from emits_download [of env downloader "input a" d]
    obtain evs where "trace (fst (download env downloader (input a) d ?w1)) = trace ?w1 @ evs"
      by (rule emitsD)
    then have "Mkdtemp d \<in> set (trace w2)" using dl by simp
    then show ?thesis using input_handling_url [OF True tmp dl] by (cases r) auto
  qed
  show ?thesis using True never_local created by simp
qed
lemma startup_defaults:
  assumes "which env ''ffmpeg''" and "files w (Path CONFIG_FILE_NAME) = None" and "\<not> verbose a"
  shows "startup env a w =
     (w\<lparr>trace := trace w @ [Which ''ffmpeg'', Log INFO ''Loaded configuration.'']\<rparr>,
      Inr (DEFAULT_CONFIG, default_downloader_args,
           JStr ''http://192.168.1.212:8080/inference'',
           JStr ''http://192.168.1.212:11434/api/generate'',
           JStr ''qwen2.5''))"
proof -
  have cfg: "load_config env (w\<lparr>trace := trace w @ [Which ''ffmpeg'']\<rparr>)
      = (w\<lparr>trace := trace w @ [Which ''ffmpeg'']\<rparr>, Inr DEFAULT_CONFIG)"
    using assms(2) by (simp add: load_config_absent)
  have dl: "Downloader (DEFAULT_CONFIG :: 'a config) = default_downloader_args"
    by (simp add: Downloader_def DEFAULT_CONFIG_def)
  have g: "getitem (DEFAULT_CONFIG :: 'a config) ''whisper_url''
        = Inr (JStr ''http://192.168.1.212:8080/inference'')"
      "getitem (DEFAULT_CONFIG :: 'a config) ''ollama_url''
        = Inr (JStr ''http://192.168.1.212:11434/api/generate'')"
      "getitem (DEFAULT_CONFIG :: 'a config) ''summarize_model'' = Inr (JStr ''qwen2.5'')"
    by (simp_all add: getitem_def DEFAULT_CONFIG_def)
  show ?thesis
    using assms(1,3)
    by (simp add: startup_def check_dependencies_def seq_def emit_def ret_def lift_def cfg dl g)
qed

theorem input_classification_witness:
  "\<not> (prefix ''http://'' ''HTTP://example.com/talk.mp3''
       \<or> prefix ''https://'' ''HTTP://example.com/talk.mp3'') \<and>
   \<not> exists (files empty_world) [''/'', ''work'', ''HTTP:'', ''example.com'', ''talk.mp3''] \<and>
   snd (main sample_env uppercase_args empty_world) = 1"
proof -
  have w: "which sample_env ''ffmpeg''" by (simp add: sample_env_def)
  have c: "files empty_world (Path CONFIG_FILE_NAME) = None" by (simp add: empty_world_def)
  have v: "\<not> verbose uppercase_args" by (simp add: uppercase_args_def)
  have p: "resolve sample_env (Path (input uppercase_args))
      = [''/'', ''work'', ''HTTP:'', ''example.com'', ''talk.mp3'']"
    by (simp add: sample_env_def uppercase_args_def Path_def)
  have u: "\<not> (prefix ''http://'' (input uppercase_args) \<or> prefix ''https://'' (input uppercase_args))"
    by (simp add: uppercase_args_def)
  have m: "\<not> exists (files empty_world) [''/'', ''work'', ''HTTP:'', ''example.com'', ''talk.mp3'']"
    by (simp add: empty_world_def exists_def)
  from input_classification [OF startup_defaults [OF w c v]] u
  have "\<not> exists (files empty_world) (resolve sample_env (Path (input uppercase_args)))
      \<longrightarrow> snd (main sample_env uppercase_args empty_world) = 1"
    by simp
  then have "snd (main sample_env uppercase_args empty_world) = 1"
    using m p by simp
  then show ?thesis using m u by (simp add: uppercase_args_def)
qed

lemma main_result:
  assumes "main_body env a w = (w', r)"
  shows "files (fst (main env a w)) = files w'"
    and "\<exists>evs. trace (fst (main env a w)) = trace w' @ evs \<and> (\<forall>e \<in> set evs. \<not> is_Rmtree e)"
    and "snd (main env a w) =
           (case r of Inr u \<Rightarrow> 0 | Inl KeyboardInterrupt \<Rightarrow> 130 | Inl (SystemExit c) \<Rightarrow> c
            | Inl e \<Rightarrow> 1)"
proof -
  show "files (fst (main env a w)) = files w'"
    using assms by (cases r) (simp_all add: main_def split: exn.splits)
  show "\<exists>evs. trace (fst (main env a w)) = trace w' @ evs \<and> (\<forall>e \<in> set evs. \<not> is_Rmtree e)"
    using assms by (cases r) (simp_all add: main_def split: exn.splits)
  show "snd (main env a w) =
           (case r of Inr u \<Rightarrow> 0 | Inl KeyboardInterrupt \<Rightarrow> 130 | Inl (SystemExit c) \<Rightarrow> c
            | Inl e \<Rightarrow> 1)"
    using assms by (cases r) (simp_all add: main_def split: exn.splits)
qed

text \<open>
  The placement of a downloaded file: the tree of the temporary directory is removed
  only right after the call that moves the file, and nowhere else.
\<close>

lemma workspace_temp_events:
  "\<exists>evs. trace (fst (workspace env config audio nm (Some d) w)) = trace w @ evs \<and>
     ((\<forall>e \<in> set evs. \<not> is_Rmtree e) \<or>
      (\<exists>pre final. evs = pre @ [Move audio final, Rmtree d] \<and> (\<forall>e \<in> set pre. \<not> is_Rmtree e)))"
proof -
  let ?slug_base = "slugify env (stem (name (Path nm)))"
  let ?out = "case config ''output_directory'' of
                None \<Rightarrow> Inr (Path ''output/'')
              | Some (JStr s) \<Rightarrow> Inr (Path s)
              | Some v \<Rightarrow> Inl (TypeError ''expected str, bytes or os.PathLike object'')"
  show ?thesis
  proof (cases ?out)
    case (Inl e)
    then have "workspace env config audio nm (Some d) w = (w, Inl e)"
      by (simp add: workspace_def Let_def seq_def lift_def)
    then show ?thesis by simp
  next
    case (Inr output_base_dir)
    let ?slug_dir = "joinpath output_base_dir ?slug_base"
    let ?final = "joinpath ?slug_dir nm"
    let ?place = "seq (shutil_move audio ?final) (\<lambda>_.
                  seq (shutil_rmtree d) (\<lambda>_.
                  ret (?slug_base, ?slug_dir, ?final)))
                  :: ('a, string \<times> path \<times> path) prog"
    have place: "\<exists>evs. trace (fst (?place w')) = trace w' @ evs \<and>
        ((\<forall>e \<in> set evs. \<not> is_Rmtree e) \<or> evs = [Move audio ?final, Rmtree d])" for w'
      by (cases "move audio ?final (files w')"; cases "rmtree d (files w')")
         (auto simp: shutil_move_def shutil_rmtree_def prog_defs split: sum.splits)
    show ?thesis
    proof (cases "exists (files w) ?slug_dir")
      case True
      let ?l = "Log WARNING (''Directory '' @ [CHR 0x27] @ name ?slug_dir @ [CHR 0x27]
                             @ '' already exists. Merging/Overwriting.'')"
      let ?w' = "w\<lparr>trace := trace w @ [?l]\<rparr>"
      have run: "workspace env config audio nm (Some d) w = ?place ?w'"
        using Inr True
        by (simp add: workspace_def Let_def prog_defs split: prod.splits sum.splits)
      from place [of ?w'] obtain evs where
        evs: "trace (fst (?place ?w')) = trace ?w' @ evs"
          "(\<forall>e \<in> set evs. \<not> is_Rmtree e) \<or> evs = [Move audio ?final, Rmtree d]"
        by blast
      have "trace (fst (workspace env config audio nm (Some d) w)) = trace w @ (?l # evs)"
        using run evs(1) by simp
      moreover have "(\<forall>e \<in> set (?l # evs). \<not> is_Rmtree e) \<or>
          (\<exists>pre final. ?l # evs = pre @ [Move audio final, Rmtree d]
                        \<and> (\<forall>e \<in> set pre. \<not> is_Rmtree e))"
        using evs(2)
      proof
        assume "\<forall>e \<in> set evs. \<not> is_Rmtree e"
        then show ?thesis by simp
      next
        assume "evs = [Move audio ?final, Rmtree d]"
        then have "?l # evs = [?l] @ [Move audio ?final, Rmtree d] \<and> (\<forall>e \<in> set [?l]. \<not> is_Rmtree e)"
          by simp
        then show ?thesis by blast
      qed
      ultimately show ?thesis by blast
    next
      case False
      show ?thesis
      proof (cases "mkdir ?slug_dir (files w)")
        case (Inl e)
        then have "workspace env config audio nm (Some d) w = (w, Inl e)"
          using Inr False
          by (simp add: workspace_def Let_def seq_def lift_def from_files_def on_files_def)
        then show ?thesis by simp
      next
        case mk: (Inr f)
        let ?l = "Log INFO (''Created workspace: '' @ str_path ?slug_dir)"
        let ?w' = "w\<lparr>files := f, trace := trace w @ [?l]\<rparr>"
        have run: "workspace env config audio nm (Some d) w = ?place ?w'"
          using Inr False mk
          by (simp add: workspace_def Let_def prog_defs split: prod.splits sum.splits)
        from place [of ?w'] obtain evs where
          evs: "trace (fst (?place ?w')) = trace ?w' @ evs"
            "(\<forall>e \<in> set evs. \<not> is_Rmtree e) \<or> evs = [Move audio ?final, Rmtree d]"
          by blast
        have "trace (fst (workspace env config audio nm (Some d) w)) = trace w @ (?l # evs)"
          using run evs(1) by simp
        moreover have "(\<forall>e \<in> set (?l # evs). \<not> is_Rmtree e) \<or>
            (\<exists>pre final. ?l # evs = pre @ [Move audio final, Rmtree d]
                          \<and> (\<forall>e \<in> set pre. \<not> is_Rmtree e))"
          using evs(2)
        proof
          assume "\<forall>e \<in> set evs. \<not> is_Rmtree e"
          then show ?thesis by simp
        next
          assume "evs = [Move audio ?final, Rmtree d]"
          then have "?l # evs = [?l] @ [Move audio ?final, Rmtree d]
              \<and> (\<forall>e \<in> set [?l]. \<not> is_Rmtree e)"
            by simp
          then show ?thesis by blast
        qed
        ultimately show ?thesis by blast
      qed
    qed
  qed
qed

lemma emits_pipeline:
  "emits (\<lambda>e. \<not> is_Rmtree e)
     (seq (transcription env whisper_url final_audio_path) (\<lambda>(transcript_path, json_path).
      seq (summarization env a ollama_url model slug_base slug_dir transcript_path
             original_filename) (\<lambda>summary_path.
      report a slug_dir final_audio_path transcript_path summary_path)))"
  by (auto intro!: emits_intros emits_transcription emits_summarization emits_report
           split: prod.splits)
text \<open>
  C10.  For a URL input, after the start of \<^verbatim>\<open>main\<close>: the temporary directory is created
  before any call of the download engine, and nothing is removed up to the end of the
  download.  When the download raises, the process exits with status 1, it leaves the
  filesystem as the download left it, and it removes no directory tree.  When the
  download returns a file, a directory tree is removed at most once in the rest of the
  run: the temporary directory, right after the call that moves the file to its final
  path.
\<close>

theorem temp_dir_lifetime:
  fixes env :: "('f, 't::linorder) env"
  assumes url: "prefix ''http://'' (input a) \<or> prefix ''https://'' (input a)"
    and st: "startup env a w = (w0, Inr (config, downloader, whisper_url, ollama_url, model))"
    and tmp: "mkdtemp env (files w0) = Inr d"
    and dl: "download env downloader (input a) d
               (w0\<lparr>trace := trace w0 @ [Mkdtemp d], files := (files w0)(d \<mapsto> Dir)\<rparr>) = (w2, r)"
  shows "(\<exists>evs0 evs1. trace w2 = trace w @ evs0 @ [Mkdtemp d] @ evs1 \<and>
            filter is_Extract evs0 = [] \<and> filter is_Rmtree (evs0 @ evs1) = []) \<and>
         (\<forall>e. r = Inl e \<and> is_Exception e \<longrightarrow>
            snd (main env a w) = 1 \<and> files (fst (main env a w)) = files w2 \<and>
            (\<exists>evs. trace (fst (main env a w)) = trace w2 @ evs \<and> filter is_Rmtree evs = [])) \<and>
         (\<forall>audio_path. r = Inr audio_path \<longrightarrow>
            (\<exists>evs. trace (fst (main env a w)) = trace w2 @ evs \<and>
               (filter is_Rmtree evs = [] \<or>
                (\<exists>pre post final_audio_path.
                    evs = pre @ [Move audio_path final_audio_path, Rmtree d] @ post \<and>
                    filter is_Rmtree pre = [] \<and> filter is_Rmtree post = []))))"
proof (intro conjI)
  let ?w1 = "w0\<lparr>trace := trace w0 @ [Mkdtemp d], files := (files w0)(d \<mapsto> Dir)\<rparr>"
  from emits_startup [of env a] obtain evs0 where
    "trace (fst (startup env a w)) = trace w @ evs0"
    and free0: "\<forall>e \<in> set evs0. \<not> is_Rmtree e \<and> \<not> is_Extract e"
    by (rule emitsD)
  then have t0: "trace w0 = trace w @ evs0" using st by simp
  from emits_download [of env downloader "input a" d] obtain evs1 where
    "trace (fst (download env downloader (input a) d ?w1)) = trace ?w1 @ evs1"
    and free1: "\<forall>e \<in> set evs1. \<not> is_Rmtree e"
    by (rule emitsD)
  then have t2: "trace w2 = trace w0 @ [Mkdtemp d] @ evs1" using dl by simp
  have "trace w2 = trace w @ evs0 @ [Mkdtemp d] @ evs1 \<and>
      filter is_Extract evs0 = [] \<and> filter is_Rmtree (evs0 @ evs1) = []"
    using t0 t2 free0 free1 by (simp add: filter_empty_conv)
  then show "\<exists>evs0 evs1. trace w2 = trace w @ evs0 @ [Mkdtemp d] @ evs1 \<and>
      filter is_Extract evs0 = [] \<and> filter is_Rmtree (evs0 @ evs1) = []"
    by blast
next
  show "\<forall>e. r = Inl e \<and> is_Exception e \<longrightarrow>
      snd (main env a w) = 1 \<and> files (fst (main env a w)) = files w2 \<and>
      (\<exists>evs. trace (fst (main env a w)) = trace w2 @ evs \<and> filter is_Rmtree evs = [])"
  proof (intro allI impI)
  fix e
  assume failed: "r = Inl e \<and> is_Exception e"
  let ?evs = "Log ERROR (''Download Failed: '' @ str_exn e) #
              Notification ''Download Failed'' (str_exn e) #
              (case notify_raises env ''Download Failed'' (str_exn e) of
                 None \<Rightarrow> []
               | Some m \<Rightarrow> [Log WARNING (''Notification failed: '' @ m)])"
  let ?w3 = "w2\<lparr>trace := trace w2 @ ?evs\<rparr>"
  have "input_handling env downloader (input a) w0 = (?w3, Inl (SystemExit 1))"
    using input_handling_url [OF url tmp dl] failed by simp
  then have body: "main_body env a w = (?w3, Inl (SystemExit 1))"
    by (simp add: main_body_after_startup [OF st] seq_def)
  have free: "\<forall>e \<in> set ?evs. \<not> is_Rmtree e" by (auto split: option.splits)
  from main_result(2) [OF body] obtain evs where
    evs: "trace (fst (main env a w)) = trace ?w3 @ evs" "\<forall>e \<in> set evs. \<not> is_Rmtree e"
    by blast
  have "trace (fst (main env a w)) = trace w2 @ (?evs @ evs)" using evs(1) by simp
  moreover have "filter is_Rmtree (?evs @ evs) = []"
    using free evs(2) by (auto simp: filter_empty_conv)
  ultimately have "\<exists>evs. trace (fst (main env a w)) = trace w2 @ evs \<and> filter is_Rmtree evs = []"
    by blast
  moreover have "snd (main env a w) = 1" using main_result(3) [OF body] by simp
  moreover have "files (fst (main env a w)) = files w2" using main_result(1) [OF body] by simp
  ultimately show "snd (main env a w) = 1 \<and> files (fst (main env a w)) = files w2 \<and>
      (\<exists>evs. trace (fst (main env a w)) = trace w2 @ evs \<and> filter is_Rmtree evs = [])"
    by blast
  qed
next
  show "\<forall>audio_path. r = Inr audio_path \<longrightarrow>
      (\<exists>evs. trace (fst (main env a w)) = trace w2 @ evs \<and>
         (filter is_Rmtree evs = [] \<or>
          (\<exists>pre post final_audio_path.
              evs = pre @ [Move audio_path final_audio_path, Rmtree d] @ post \<and>
              filter is_Rmtree pre = [] \<and> filter is_Rmtree post = [])))"
  proof (intro allI impI)
  fix audio_path
  assume ok: "r = Inr audio_path"
  let ?ws = "workspace env config audio_path (name audio_path) (Some d)"
  let ?pipe = "\<lambda>(slug_base, slug_dir, final_audio_path).
      seq (transcription env whisper_url final_audio_path) (\<lambda>(transcript_path, json_path).
      seq (summarization env a ollama_url model slug_base slug_dir transcript_path
             (name audio_path)) (\<lambda>summary_path.
      report a slug_dir final_audio_path transcript_path summary_path))"
  have "input_handling env downloader (input a) w0
      = (w2, Inr (audio_path, name audio_path, Some d))"
    using input_handling_url [OF url tmp dl] ok by simp
  then have body: "main_body env a w = seq ?ws ?pipe w2"
    by (simp add: main_body_after_startup [OF st] seq_def)
  obtain w4 rw where ws: "?ws w2 = (w4, rw)" by (cases "?ws w2")
  from workspace_temp_events [of env config audio_path "name audio_path" d w2]
  obtain evs_ws where t4: "trace w4 = trace w2 @ evs_ws"
    and shape: "(\<forall>e \<in> set evs_ws. \<not> is_Rmtree e) \<or>
      (\<exists>pre final. evs_ws = pre @ [Move audio_path final, Rmtree d]
                    \<and> (\<forall>e \<in> set pre. \<not> is_Rmtree e))"
    using ws by auto
  have rest: "\<exists>post. trace (fst (main env a w)) = trace w4 @ post \<and> (\<forall>e \<in> set post. \<not> is_Rmtree e)"
  proof (cases rw)
    case (Inl e)
    then have "main_body env a w = (w4, Inl e)" using body ws by (simp add: seq_def)
    from main_result(2) [OF this] show ?thesis .
  next
    case (Inr x)
    obtain slug_base slug_dir final_audio_path where x: "x = (slug_base, slug_dir, final_audio_path)"
      by (cases x)
    let ?p = "seq (transcription env whisper_url final_audio_path) (\<lambda>(transcript_path, json_path).
      seq (summarization env a ollama_url model slug_base slug_dir transcript_path
             (name audio_path)) (\<lambda>summary_path.
      report a slug_dir final_audio_path transcript_path summary_path))"
    obtain w5 r5 where p: "?p w4 = (w5, r5)" by (cases "?p w4")
    have "main_body env a w = (w5, r5)" using body ws Inr x p by (simp add: seq_def)
    from main_result(2) [OF this] obtain evs_m where
      m: "trace (fst (main env a w)) = trace w5 @ evs_m" "\<forall>e \<in> set evs_m. \<not> is_Rmtree e"
      by blast
    from emits_pipeline [of env whisper_url final_audio_path a ollama_url model slug_base slug_dir
        "name audio_path"]
    obtain evs_p where "trace (fst (?p w4)) = trace w4 @ evs_p" "\<forall>e \<in> set evs_p. \<not> is_Rmtree e"
      by (rule emitsD)
    then have "trace (fst (main env a w)) = trace w4 @ (evs_p @ evs_m)
        \<and> (\<forall>e \<in> set (evs_p @ evs_m). \<not> is_Rmtree e)"
      using p m by auto
    then show ?thesis by blast
  qed
  then obtain post where post: "trace (fst (main env a w)) = trace w4 @ post"
      "\<forall>e \<in> set post. \<not> is_Rmtree e"
    by blast
  have total: "trace (fst (main env a w)) = trace w2 @ (evs_ws @ post)" using post(1) t4 by simp
  from shape show "\<exists>evs. trace (fst (main env a w)) = trace w2 @ evs \<and>
      (filter is_Rmtree evs = [] \<or>
       (\<exists>pre post final_audio_path.
           evs = pre @ [Move audio_path final_audio_path, Rmtree d] @ post \<and>
           filter is_Rmtree pre = [] \<and> filter is_Rmtree post = []))"
  proof
    assume "\<forall>e \<in> set evs_ws. \<not> is_Rmtree e"
    then have "filter is_Rmtree (evs_ws @ post) = []" using post(2) by (simp add: filter_empty_conv)
    then show ?thesis using total by blast
  next
    assume "\<exists>pre final. evs_ws = pre @ [Move audio_path final, Rmtree d]
        \<and> (\<forall>e \<in> set pre. \<not> is_Rmtree e)"
    then obtain pre final where pre: "evs_ws = pre @ [Move audio_path final, Rmtree d]"
        "\<forall>e \<in> set pre. \<not> is_Rmtree e"
      by blast
    have "evs_ws @ post = pre @ [Move audio_path final, Rmtree d] @ post \<and>
        filter is_Rmtree pre = [] \<and> filter is_Rmtree post = []"
      using pre post(2) by (simp add: filter_empty_conv)
    then show ?thesis using total by blast
  qed
qed
qed

lemma url_start_world_eq:
  "(tmp_world\<lparr>trace := trace tmp_world @ [Which ''ffmpeg'', Log INFO ''Loaded configuration.'']\<rparr>)
     \<lparr>trace := trace (tmp_world\<lparr>trace := trace tmp_world @
                 [Which ''ffmpeg'', Log INFO ''Loaded configuration.'']\<rparr>) @ [Mkdtemp download_dir],
      files := (files (tmp_world\<lparr>trace := trace tmp_world @
                 [Which ''ffmpeg'', Log INFO ''Loaded configuration.'']\<rparr>))(download_dir \<mapsto> Dir)\<rparr>
   = url_start_world"
  by (simp add: url_start_world_def tmp_world_def)

lemma mkdir_url_start_world:
  "mkdir download_dir (files url_start_world) = Inr (files url_start_world)"
proof -
  have "(\<lambda>q. if q \<noteq> [] \<and> prefix q download_dir \<and> files url_start_world q = None
             then Some Dir else files url_start_world q) = files url_start_world" (is "?f = _")
  proof
    fix q
    show "?f q = files url_start_world q"
      by (auto simp: url_start_world_def download_dir_def prefix_Cons)
  qed
  moreover have "\<not> (\<exists>q \<in> set (prefixes download_dir).
      case files url_start_world q of Some (File c) \<Rightarrow> True | _ \<Rightarrow> False)"
    by (simp add: url_start_world_def download_dir_def)
  ultimately show ?thesis by (simp add: mkdir_def)
qed

lemma download_sample_env_fails:
  "snd (download sample_env default_downloader_args ''https://example.com/talk'' download_dir
          url_start_world) = Inl (OSError ''Unable to download webpage'') \<and>
   files (fst (download sample_env default_downloader_args ''https://example.com/talk''
                 download_dir url_start_world)) = files url_start_world"
proof -
  obtain opts :: "unit json" where o: "make_opts default_downloader_args download_dir = Inr opts"
    using make_opts_default by blast
  show ?thesis
    by (simp add: download_def prog_defs mkdir_url_start_world o sample_env_def)
qed

lemma sort_reverse_two_candidates:
  "sort_reverse (st_mtime two_candidates_env f)
     [download_dir @ [''Talk.webm''], download_dir @ [''Talk.mp3'']]
   = [download_dir @ [''Talk.mp3''], download_dir @ [''Talk.webm'']]"
  by (simp add: sort_reverse_def two_candidates_env_def sample_env_def name_def download_dir_def)

lemma download_two_candidates:
  "snd (download two_candidates_env default_downloader_args ''https://example.com/talk''
          download_dir url_start_world) = Inr (download_dir @ [''Talk.mp3''])"
proof -
  obtain opts :: "unit json" where o: "make_opts default_downloader_args download_dir = Inr opts"
    using make_opts_default by blast
  let ?f2 = "(files url_start_world)(download_dir @ [''Talk.webm''] \<mapsto> File ''webm'',
                download_dir @ [''Talk.mp3''] \<mapsto> File ''mp3'')"
  let ?found = "[download_dir @ [''Talk.webm''], download_dir @ [''Talk.mp3'']]"
  have e: "extract_info two_candidates_env opts ''https://example.com/talk'' (files url_start_world)
      = (?f2, Inr ''/tmp/tmpk3v9x2/Talk.webm'')"
    by (simp add: two_candidates_env_def sample_env_def)
  have g: "?found = glob two_candidates_env ?f2 download_dir
             (stem (name (Path ''/tmp/tmpk3v9x2/Talk.webm'')) @ ''.*'')"
    by (simp add: stem_Talk two_candidates_env_def sample_env_def)
  show ?thesis
    using download_after_extract [OF mkdir_url_start_world o e g]
    by (simp add: sort_reverse_two_candidates)
qed

theorem temp_dir_lifetime_witness:
  "snd (main sample_env url_args tmp_world) = 1 \<and>
   files (fst (main sample_env url_args tmp_world)) download_dir = Some Dir \<and>
   filter is_Rmtree (trace (fst (main sample_env url_args tmp_world))) = [] \<and>
   (\<exists>evs. trace (fst (main two_candidates_env url_args tmp_world))
            = trace (fst (download two_candidates_env default_downloader_args
                            ''https://example.com/talk'' download_dir url_start_world)) @ evs \<and>
      (filter is_Rmtree evs = [] \<or>
       (\<exists>pre post final_audio_path.
           evs = pre @ [Move (download_dir @ [''Talk.mp3'']) final_audio_path, Rmtree download_dir]
                 @ post \<and>
           filter is_Rmtree pre = [] \<and> filter is_Rmtree post = [])))"
proof -
  let ?url = "''https://example.com/talk''"
  let ?w0 = "tmp_world\<lparr>trace := trace tmp_world @
               [Which ''ffmpeg'', Log INFO ''Loaded configuration.'']\<rparr>"
  let ?w1 = "?w0\<lparr>trace := trace ?w0 @ [Mkdtemp download_dir],
                   files := (files ?w0)(download_dir \<mapsto> Dir)\<rparr>"
  have u: "prefix ''http://'' (input url_args) \<or> prefix ''https://'' (input url_args)"
    by (simp add: url_args_def)
  have i: "input url_args = ?url" by (simp add: url_args_def)
  have c: "files tmp_world (Path CONFIG_FILE_NAME) = None"
    by (simp add: tmp_world_def Path_CONFIG_FILE_NAME)
  have v: "\<not> verbose url_args" by (simp add: url_args_def)
  have t: "trace tmp_world = []" by (simp add: tmp_world_def)
  \<comment> \<open>the download fails\<close>
  have w: "which sample_env ''ffmpeg''" by (simp add: sample_env_def)
  have m: "mkdtemp sample_env (files ?w0) = Inr download_dir"
    by (simp add: sample_env_def download_dir_def)
  obtain w2 r where dl: "download sample_env default_downloader_args (input url_args) download_dir
      ?w1 = (w2, r)"
    by (cases "download sample_env default_downloader_args (input url_args) download_dir ?w1")
  have r: "r = Inl (OSError ''Unable to download webpage'')" and f2: "files w2 = files url_start_world"
    using dl download_sample_env_fails unfolding url_start_world_eq i by simp_all
  note first = temp_dir_lifetime [OF u startup_defaults [OF w c v] m dl]
  from first obtain evs0 evs1 where
    before: "trace w2 = trace tmp_world @ evs0 @ [Mkdtemp download_dir] @ evs1"
      "filter is_Rmtree (evs0 @ evs1) = []"
    by blast
  from first r obtain evs where
    after: "snd (main sample_env url_args tmp_world) = 1"
      "files (fst (main sample_env url_args tmp_world)) = files w2"
      "trace (fst (main sample_env url_args tmp_world)) = trace w2 @ evs"
      "filter is_Rmtree evs = []"
    by auto
  have a1: "files (fst (main sample_env url_args tmp_world)) download_dir = Some Dir"
    using after(2) f2 by (simp add: url_start_world_def)
  have a2: "filter is_Rmtree (trace (fst (main sample_env url_args tmp_world))) = []"
    using after(3,4) before t by simp
  \<comment> \<open>the download returns the newest file\<close>
  have w': "which two_candidates_env ''ffmpeg''" by (simp add: two_candidates_env_def sample_env_def)
  have m': "mkdtemp two_candidates_env (files ?w0) = Inr download_dir"
    by (simp add: two_candidates_env_def sample_env_def download_dir_def)
  obtain w2' r' where dl': "download two_candidates_env default_downloader_args (input url_args)
      download_dir ?w1 = (w2', r')"
    by (cases "download two_candidates_env default_downloader_args (input url_args) download_dir ?w1")
  have r': "r' = Inr (download_dir @ [''Talk.mp3''])"
    and w2': "w2' = fst (download two_candidates_env default_downloader_args ?url download_dir
                           url_start_world)"
    using dl' download_two_candidates unfolding url_start_world_eq i by simp_all
  note second = temp_dir_lifetime [OF u startup_defaults [OF w' c v] m' dl']
  from second r' have "\<exists>evs. trace (fst (main two_candidates_env url_args tmp_world))
        = trace w2' @ evs \<and>
      (filter is_Rmtree evs = [] \<or>
       (\<exists>pre post final_audio_path.
           evs = pre @ [Move (download_dir @ [''Talk.mp3'']) final_audio_path, Rmtree download_dir]
                 @ post \<and>
           filter is_Rmtree pre = [] \<and> filter is_Rmtree post = []))"
    by blast
  then show ?thesis using after(1) a1 a2 w2' by simp
qed

section \<open>A run whose summarization fails\<close>

lemma transcribe_success:
  fixes env :: "('f, 't) env"
  assumes audio: "name audio \<noteq> []" "CHR ''/'' \<notin> set (name audio)"
    and wav: "wav = parent audio @ [stem (name audio) @ ''.wav'']"
    and tpath: "txt_path = parent audio @ [stem (name audio) @ ''.txt'']"
    and jpath: "json_path = parent audio @ [stem (name audio) @ ''_timestamps.json'']"
    and conv: "run_process env [''ffmpeg'', ''-y'', ''-i'', str_path audio, ''-ar'', ''16000'',
           ''-ac'', ''1'', ''-loglevel'', ''error'', str_path wav] None (files w) = (f1, Inr proc)"
           "returncode proc = 0"
    and data: "f1 wav = Some (File data)"
    and nodir: "f1 txt_path \<noteq> Some Dir" "f1 json_path \<noteq> Some Dir"
    and resp: "requests_post env url (Multipart (name wav) data ''audio/wav''
           [(''response_format'', ''verbose_json''), (''temperature'', ''0.0'')]) = Inr response"
           "\<not> (400 \<le> status_code response \<and> status_code response < 600)"
           "json_body response = Inr (JObj kvs)"
    and tfield: "map_of kvs ''text'' = Some (JStr t)"
    and segments: "map_of kvs ''segments'' = Some segments"
  shows "snd (transcribe env url audio w) = Inr (txt_path, json_path)"
    and "files (fst (transcribe env url audio w)) =
           (if wav = audio
            then f1(txt_path \<mapsto> File (strip t), json_path \<mapsto> File (json_dump env segments))
            else (f1(txt_path \<mapsto> File (strip t), json_path \<mapsto> File (json_dump env segments)))
                   (wav := None))"
proof -
  have wt: "wav \<noteq> txt_path" using wav tpath by simp
  have wj: "wav \<noteq> json_path" using wav jpath by simp
  have jt: "joinpath (parent audio) (stem (name audio) @ ''.txt'') = txt_path"
    using audio(2) tpath by (simp add: joinpath_stem)
  have jj: "joinpath (parent audio) (stem (name audio) @ ''_timestamps.json'') = json_path"
    using audio(2) jpath by (simp add: joinpath_stem)
  have ws: "with_suffix audio ''.wav'' = Inr wav"
    using audio(1) wav by (simp add: with_suffix_parent)
  have gt: "get_text (JObj kvs) = Inr (strip t)"
    using tfield by (simp add: get_text_def)
  have gs: "get_segments (JObj kvs) = Inr segments"
    using segments by (simp add: get_segments_def)
  have rs: "raise_for_status response = ret ()"
    using resp(2) by (auto simp: raise_for_status_def)
  have tj: "txt_path \<noteq> json_path" using tpath jpath by simp
  note conv' = convert_to_wav_16k_ok [OF ws conv]
  show "snd (transcribe env url audio w) = Inr (txt_path, json_path)"
    using data nodir resp(1,3) wt wj tj
    by (simp add: transcribe_def conv' prog_defs post_def rs Let_def jt jj gt gs
        write_file_def read_file_def unlink_def exists_def)
  show "files (fst (transcribe env url audio w)) =
           (if wav = audio
            then f1(txt_path \<mapsto> File (strip t), json_path \<mapsto> File (json_dump env segments))
            else (f1(txt_path \<mapsto> File (strip t), json_path \<mapsto> File (json_dump env segments)))
                   (wav := None))"
    using data nodir resp(1,3) wt wj tj
    by (simp add: transcribe_def conv' prog_defs post_def rs Let_def jt jj gt gs
        write_file_def read_file_def unlink_def exists_def)
qed

lemma transcription_returns:
  "transcribe env whisper_url final_audio_path w = (w', Inr x) \<Longrightarrow>
   transcription env whisper_url final_audio_path w = (w', Inr x)"
  by (simp add: transcription_def try_except_def)

lemma summarization_after_failure:
  assumes "\<not> no_summary a"
    and "summarize env ollama_url model transcript_path
           (joinpath slug_dir (slug_base @ ''_summary.md'')) w = (w', Inl e)"
    and "is_Exception e"
  shows "summarization env a ollama_url model slug_base slug_dir transcript_path
           original_filename w =
     (w'\<lparr>trace := trace w' @ Log ERROR (''Summarization failed: '' @ str_exn e) #
          Notification ''Summarization Failed'' (str_exn e) #
          (case notify_raises env ''Summarization Failed'' (str_exn e) of
             None \<Rightarrow> []
           | Some m \<Rightarrow> [Log WARNING (''Notification failed: '' @ m)])\<rparr>,
      Inr (Some (joinpath slug_dir (slug_base @ ''_summary.md''))))"
  using assms by (simp add: summarization_def Let_def prog_defs notify_eq)

lemma report_with_summary_path:
  assumes "\<not> no_summary a"
  shows "report a slug_dir final_audio_path transcript_path (Some summary_path) w =
     (w\<lparr>trace := trace w @
          [Print (CHR 0x0A # replicate 40 CHR ''=''),
           Print ''SUCCESS'',
           Print (replicate 40 CHR ''=''),
           Print (''Workspace: '' @ str_path slug_dir),
           Print ('' - Audio:      '' @ name final_audio_path),
           Print ('' - Transcript: '' @ name transcript_path),
           Print ('' - Summary:    '' @ name summary_path),
           Print (replicate 40 CHR ''='')]\<rparr>, Inr ())"
  using assms by (simp add: report_def prog_defs)

text \<open>
  When a summary is asked for and \<^verbatim>\<open>summarize\<close> raises, \<^verbatim>\<open>main\<close> goes on to the report,
  prints the summary line, and exits with status 0; the files are those that
  \<^verbatim>\<open>summarize\<close> left.
\<close>

lemma main_after_failed_summary:
  fixes env :: "('f, 't::linorder) env"
  assumes st: "startup env a w = (w0, Inr (config, downloader, whisper_url, ollama_url, model))"
    and ih: "input_handling env downloader (input a) w0
               = (w1, Inr (audio_path, original_filename, temp_download_dir))"
    and ws: "workspace env config audio_path original_filename temp_download_dir w1
               = (w2, Inr (slug_base, slug_dir, final_audio_path))"
    and tr: "transcribe env whisper_url final_audio_path w2 = (w3, Inr (transcript_path, json_path))"
    and ns: "\<not> no_summary a"
    and su: "summarize env ollama_url model transcript_path
               (joinpath slug_dir (slug_base @ ''_summary.md'')) w3 = (w4, Inl e)"
    and ex: "is_Exception e"
  shows "snd (main env a w) = 0"
    and "files (fst (main env a w)) = files w4"
    and "\<exists>pre. trace (fst (main env a w)) = pre @
          [Print ('' - Audio:      '' @ name final_audio_path),
           Print ('' - Transcript: '' @ name transcript_path),
           Print ('' - Summary:    '' @ name (joinpath slug_dir (slug_base @ ''_summary.md''))),
           Print (replicate 40 CHR ''='')]"
proof -
  let ?evs = "Log ERROR (''Summarization failed: '' @ str_exn e) #
          Notification ''Summarization Failed'' (str_exn e) #
          (case notify_raises env ''Summarization Failed'' (str_exn e) of
             None \<Rightarrow> []
           | Some m \<Rightarrow> [Log WARNING (''Notification failed: '' @ m)])"
  let ?w5 = "w4\<lparr>trace := trace w4 @ ?evs\<rparr>"
  let ?summary = "joinpath slug_dir (slug_base @ ''_summary.md'')"
  let ?lines = "[Print (CHR 0x0A # replicate 40 CHR ''=''),
           Print ''SUCCESS'',
           Print (replicate 40 CHR ''=''),
           Print (''Workspace: '' @ str_path slug_dir),
           Print ('' - Audio:      '' @ name final_audio_path),
           Print ('' - Transcript: '' @ name transcript_path),
           Print ('' - Summary:    '' @ name ?summary),
           Print (replicate 40 CHR ''='')]"
  have body: "main_body env a w = (?w5\<lparr>trace := trace ?w5 @ ?lines\<rparr>, Inr ())"
    by (simp add: main_body_after_startup [OF st] seq_def ih ws transcription_returns [OF tr]
        summarization_after_failure [OF ns su ex] report_with_summary_path [OF ns])
  then have m: "main env a w = (?w5\<lparr>trace := trace ?w5 @ ?lines\<rparr>, 0)"
    by (simp add: main_def)
  show "snd (main env a w) = 0" using m by simp
  show "files (fst (main env a w)) = files w4" using m by simp
  have "trace (fst (main env a w)) =
      (trace ?w5 @ [Print (CHR 0x0A # replicate 40 CHR ''=''), Print ''SUCCESS'',
           Print (replicate 40 CHR ''=''), Print (''Workspace: '' @ str_path slug_dir)]) @
          [Print ('' - Audio:      '' @ name final_audio_path),
           Print ('' - Transcript: '' @ name transcript_path),
           Print ('' - Summary:    '' @ name ?summary),
           Print (replicate 40 CHR ''='')]"
    using m by simp
  then show "\<exists>pre. trace (fst (main env a w)) = pre @
          [Print ('' - Audio:      '' @ name final_audio_path),
           Print ('' - Transcript: '' @ name transcript_path),
           Print ('' - Summary:    '' @ name ?summary),
           Print (replicate 40 CHR ''='')]"
    by blast
qed

lemma lower_talk: "lower ''talk'' = ''talk''"
  by code_simp

lemma workspace_talk:
  assumes "files w = files work_world"
  shows "snd (workspace transcribing_env DEFAULT_CONFIG work_talk_mp3 ''talk.mp3'' None w)
           = Inr (''talk'', [''output'', ''talk''], talk_mp3)"
    and "files (fst (workspace transcribing_env DEFAULT_CONFIG work_talk_mp3 ''talk.mp3'' None w))
           talk_txt = None"
    and "files (fst (workspace transcribing_env DEFAULT_CONFIG work_talk_mp3 ''talk.mp3'' None w))
           [''output'', ''talk'', ''talk_timestamps.json''] = None"
    and "files (fst (workspace transcribing_env DEFAULT_CONFIG work_talk_mp3 ''talk.mp3'' None w))
           talk_summary = None"
proof -
  have slug: "slugify transcribing_env (stem (name (Path ''talk.mp3''))) = ''talk''"
    by (simp add: transcribing_env_def sample_env_def Path_def name_def stem_talk_mp3 lower_talk)
  have out: "(DEFAULT_CONFIG :: unit config) ''output_directory'' = Some (JStr ''output/'')"
    by (simp add: DEFAULT_CONFIG_def)
  have dir: "joinpath (Path ''output/'') ''talk'' = [''output'', ''talk'']"
    by (simp add: joinpath_def Path_def)
  have final: "joinpath [''output'', ''talk''] ''talk.mp3'' = talk_mp3"
    by (simp add: joinpath_def Path_def talk_mp3_def)
  have absent: "\<not> exists (files w) [''output'', ''talk'']"
    using assms by (simp add: exists_def work_world_def work_talk_mp3_def)
  have mk: "mkdir [''output'', ''talk''] (files w) =
      Inr (\<lambda>q. if q \<noteq> [] \<and> prefix q [''output'', ''talk''] \<and> files w q = None
               then Some Dir else files w q)"
  proof -
    have "\<not> (\<exists>q \<in> set (prefixes [''output'', ''talk'']).
        case files w q of Some (File c) \<Rightarrow> True | _ \<Rightarrow> False)"
      using assms by (simp add: work_world_def work_talk_mp3_def)
    then show ?thesis by (simp only: mkdir_def if_False)
  qed
  let ?f = "\<lambda>q. if q \<noteq> [] \<and> prefix q [''output'', ''talk''] \<and> files w q = None
               then Some Dir else files w q"
  have mv: "move work_talk_mp3 talk_mp3 ?f = Inr (rename work_talk_mp3 talk_mp3 ?f)"
    using assms by (simp add: move_def work_world_def work_talk_mp3_def talk_mp3_def)
  have par: "parent work_talk_mp3 \<noteq> [''output'', ''talk'']"
    by (simp add: parent_def work_talk_mp3_def)
  have run: "workspace transcribing_env DEFAULT_CONFIG work_talk_mp3 ''talk.mp3'' None w =
      (w\<lparr>files := rename work_talk_mp3 talk_mp3 ?f,
         trace := trace w @ [Log INFO (''Created workspace: '' @ str_path [''output'', ''talk'']),
                             Move work_talk_mp3 talk_mp3]\<rparr>,
       Inr (''talk'', [''output'', ''talk''], talk_mp3))"
    by (simp add: workspace_def Let_def slug out dir final absent mk mv par shutil_move_def
        prog_defs)
  have fs: "files (fst (workspace transcribing_env DEFAULT_CONFIG work_talk_mp3 ''talk.mp3'' None w))
      = rename work_talk_mp3 talk_mp3 ?f"
    by (simp add: run)
  show "snd (workspace transcribing_env DEFAULT_CONFIG work_talk_mp3 ''talk.mp3'' None w)
           = Inr (''talk'', [''output'', ''talk''], talk_mp3)"
    by (simp add: run)
  show "files (fst (workspace transcribing_env DEFAULT_CONFIG work_talk_mp3 ''talk.mp3'' None w))
           talk_txt = None"
    unfolding fs using assms
    by (simp add: rename_def talk_txt_def talk_mp3_def work_talk_mp3_def work_world_def)
  show "files (fst (workspace transcribing_env DEFAULT_CONFIG work_talk_mp3 ''talk.mp3'' None w))
           [''output'', ''talk'', ''talk_timestamps.json''] = None"
    unfolding fs using assms
    by (simp add: rename_def talk_mp3_def work_talk_mp3_def work_world_def)
  show "files (fst (workspace transcribing_env DEFAULT_CONFIG work_talk_mp3 ''talk.mp3'' None w))
           talk_summary = None"
    unfolding fs using assms
    by (simp add: rename_def talk_summary_def talk_mp3_def work_talk_mp3_def work_world_def)
qed

lemma summarize_unreachable:
  assumes "files w talk_txt = Some (File c)"
  shows "snd (summarize transcribing_env url (JStr ''qwen2.5'') talk_txt out w)
           = Inl (RequestException ''Connection refused'')"
    and "files (fst (summarize transcribing_env url (JStr ''qwen2.5'') talk_txt out w)) = files w"
  using assms lower_qwen
  by (simp_all add: summarize_def summarize_ollama_def post_def model_lower_def read_file_def
      Let_def prog_defs transcribing_env_def sample_env_def)

text \<open>
  C1.  The claim: when summarization is asked for and raises, the run is still a success,
  the transcript stays, and the final report leaves the summary line out.  The code does
  not leave it out.  For the local file \<^verbatim>\<open>talk.mp3\<close>, a transcription that succeeds and a
  generation service that cannot be reached, \<^verbatim>\<open>main\<close> exits with status 0 and the
  transcript is there, but the report has the line for \<^verbatim>\<open>talk_summary.md\<close>, a file that
  does not exist.
\<close>

theorem main_prints_summary_line_after_failure:
  "snd (main transcribing_env local_args work_world) = 0 \<and>
   files (fst (main transcribing_env local_args work_world)) talk_txt
     = Some (File ''Hello world'') \<and>
   files (fst (main transcribing_env local_args work_world)) talk_summary = None \<and>
   Print '' - Summary:    talk_summary.md''
     \<in> set (trace (fst (main transcribing_env local_args work_world)))"
proof -
  let ?whisper = "JStr ''http://192.168.1.212:8080/inference'' :: unit json"
  let ?ollama = "JStr ''http://192.168.1.212:11434/api/generate'' :: unit json"
  let ?json = "[''output'', ''talk'', ''talk_timestamps.json'']"
  let ?w0 = "work_world\<lparr>trace := trace work_world @
               [Which ''ffmpeg'', Log INFO ''Loaded configuration.'']\<rparr>"
  \<comment> \<open>start-up and input handling\<close>
  have "which transcribing_env ''ffmpeg''" by (simp add: transcribing_env_def sample_env_def)
  moreover have "files work_world (Path CONFIG_FILE_NAME) = None"
    by (simp add: work_world_def work_talk_mp3_def Path_CONFIG_FILE_NAME)
  moreover have "\<not> verbose local_args" by (simp add: local_args_def)
  ultimately have st: "startup transcribing_env local_args work_world =
      (?w0, Inr (DEFAULT_CONFIG, default_downloader_args, ?whisper, ?ollama, JStr ''qwen2.5''))"
    by (rule startup_defaults)
  have res: "resolve transcribing_env (Path ''talk.mp3'') = work_talk_mp3"
    by (simp add: transcribing_env_def sample_env_def Path_def work_talk_mp3_def)
  have ih: "input_handling transcribing_env default_downloader_args (input local_args) ?w0
      = (?w0, Inr (work_talk_mp3, ''talk.mp3'', None))"
    by (simp add: input_handling_local local_args_def res exists_def work_world_def
        name_def work_talk_mp3_def)
  \<comment> \<open>the workspace\<close>
  have f0: "files ?w0 = files work_world" by simp
  note wt = workspace_talk [OF f0]
  obtain w2 where ws: "workspace transcribing_env DEFAULT_CONFIG work_talk_mp3 ''talk.mp3'' None ?w0
      = (w2, Inr (''talk'', [''output'', ''talk''], talk_mp3))"
    using wt(1)
    by (cases "workspace transcribing_env DEFAULT_CONFIG work_talk_mp3 ''talk.mp3'' None ?w0") simp
  have f2: "files w2 talk_txt = None" "files w2 ?json = None" "files w2 talk_summary = None"
    using wt(2,3,4) ws by simp_all
  \<comment> \<open>the transcription\<close>
  let ?f1 = "(files w2)(talk_wav \<mapsto> File ''RIFF'')"
  let ?proc = "\<lparr>returncode = 0, stdout = [], stderr = []\<rparr>"
  let ?response = "\<lparr>status_code = 200, json_body = Inr whisper_result\<rparr>"
  let ?kvs = "[(''text'', JStr '' Hello world''), (''segments'', whisper_segments)]"
  have a1: "name talk_mp3 \<noteq> []" by (simp add: name_talk_mp3)
  have a2: "CHR ''/'' \<notin> set (name talk_mp3)" by (simp add: name_talk_mp3)
  have a3: "talk_wav = parent talk_mp3 @ [stem (name talk_mp3) @ ''.wav'']"
    by (simp add: name_talk_mp3 parent_talk_mp3 stem_talk_mp3 talk_wav_def)
  have a4: "talk_txt = parent talk_mp3 @ [stem (name talk_mp3) @ ''.txt'']"
    by (simp add: name_talk_mp3 parent_talk_mp3 stem_talk_mp3 talk_txt_def)
  have a5: "?json = parent talk_mp3 @ [stem (name talk_mp3) @ ''_timestamps.json'']"
    by (simp add: name_talk_mp3 parent_talk_mp3 stem_talk_mp3)
  have a6: "run_process transcribing_env
       [''ffmpeg'', ''-y'', ''-i'', str_path talk_mp3, ''-ar'', ''16000'', ''-ac'', ''1'',
        ''-loglevel'', ''error'', str_path talk_wav] None (files w2) = (?f1, Inr ?proc)"
    by (simp add: transcribing_env_def sample_env_def)
  have a7: "returncode ?proc = 0" by simp
  have a8: "?f1 talk_wav = Some (File ''RIFF'')" by simp
  have a9: "?f1 talk_txt \<noteq> Some Dir" using f2(1) by (simp add: talk_wav_def talk_txt_def)
  have a10: "?f1 ?json \<noteq> Some Dir" using f2(2) by (simp add: talk_wav_def)
  have a11: "requests_post transcribing_env ?whisper
       (Multipart (name talk_wav) ''RIFF'' ''audio/wav''
         [(''response_format'', ''verbose_json''), (''temperature'', ''0.0'')]) = Inr ?response"
    by (simp add: transcribing_env_def sample_env_def)
  have a12: "\<not> (400 \<le> status_code ?response \<and> status_code ?response < 600)" by simp
  have a13: "json_body ?response = Inr (JObj ?kvs)" by (simp add: whisper_result_def)
  have a14: "map_of ?kvs ''text'' = Some (JStr '' Hello world'')" by simp
  have a15: "map_of ?kvs ''segments'' = Some whisper_segments" by simp
  note ts = transcribe_success [OF a1 a2 a3 a4 a5 a6 a7 a8 a9 a10 a11 a12 a13 a14 a15]
  obtain w3 where tr: "transcribe transcribing_env ?whisper talk_mp3 w2 = (w3, Inr (talk_txt, ?json))"
    using ts(1) by (cases "transcribe transcribing_env ?whisper talk_mp3 w2") simp
  have f3: "files w3 talk_txt = Some (File ''Hello world'')" "files w3 talk_summary = None"
    using ts(2) tr f2(3)
    by (simp_all add: strip_Hello talk_wav_def talk_mp3_def talk_txt_def talk_summary_def)
  \<comment> \<open>the summarization\<close>
  have sp: "joinpath [''output'', ''talk''] (''talk'' @ ''_summary.md'') = talk_summary"
    by (simp add: joinpath_def Path_def talk_summary_def)
  note su' = summarize_unreachable [OF f3(1), of ?ollama talk_summary]
  obtain w4 where su: "summarize transcribing_env ?ollama (JStr ''qwen2.5'') talk_txt
      (joinpath [''output'', ''talk''] (''talk'' @ ''_summary.md'')) w3
        = (w4, Inl (RequestException ''Connection refused''))"
    using su'(1) unfolding sp
    by (cases "summarize transcribing_env ?ollama (JStr ''qwen2.5'') talk_txt talk_summary w3") simp
  have f4: "files w4 = files w3" using su'(2) su unfolding sp by simp
  have ns: "\<not> no_summary local_args" by (simp add: local_args_def)
  have ex: "is_Exception (RequestException ''Connection refused'')" by simp
  note run = main_after_failed_summary [OF st ih ws tr ns su ex]
  have "name talk_summary = ''talk_summary.md''" by (simp add: name_def talk_summary_def)
  then have "Print '' - Summary:    talk_summary.md''
      \<in> set (trace (fst (main transcribing_env local_args work_world)))"
    using run(3) unfolding sp by auto
  then show ?thesis using run(1,2) f4 f3 by simp
qed

end
